theory Spec2Isabelle
  imports Complex_Main "HOL-Library.Sublist"
begin

section \<open>Data model\<close>

text \<open>
  The field kinds of \<^verbatim>\<open>DraggableField.tsx\<close>:
  \<^verbatim>\<open>export type FieldType = "signature" | "name" | "email" | "date"\<close>.
  \<open>fieldTypeName\<close> is the string a kind is at run time (it is what a template literal
  interpolates).
\<close>

datatype FieldType = Signature | Name | Email | Date

fun fieldTypeName :: "FieldType \<Rightarrow> string" where
  "fieldTypeName Signature = ''signature''"
| "fieldTypeName Name = ''name''"
| "fieldTypeName Email = ''email''"
| "fieldTypeName Date = ''date''"

text \<open>
  \<^verbatim>\<open>PlacedField\<close> of \<^verbatim>\<open>DocumentFieldOverlay.tsx\<close>. JavaScript numbers are modelled
  as exact reals (rounding of doubles is not modelled); the page number is an integer.
  The interface declares no \<^verbatim>\<open>value\<close>, but the upload component reads
  \<^verbatim>\<open>field.value\<close>, so the record carries it as an optional attribute:
  \<open>None\<close> is JavaScript's \<^verbatim>\<open>undefined\<close>.
\<close>

record PlacedField =
  fid :: string
  ftype :: FieldType
  fx :: real
  fy :: real
  fpage :: int
  fwidth :: real
  fheight :: real
  fvalue :: "string option"

text \<open>
  What a drawing call of the document engine leaves on a page:
  \<^verbatim>\<open>page.drawText(text, {x, y, size, font, color})\<close> and
  \<^verbatim>\<open>page.drawImage(image, {x, y, width, height})\<close>.
\<close>

datatype font = Helvetica | HelveticaBold

datatype draw_op =
    DrawText string real real nat font "real \<times> real \<times> real"
  | DrawImage real real real real

record pdf_page =
  pwidth :: real
  pheight :: real
  pops :: "draw_op list"

text \<open>
  A browser \<^verbatim>\<open>File\<close>: name, byte size, last-modified time stamp and MIME type.
  \<open>pdf_content\<close> stands for what \<^verbatim>\<open>PDFDocument.load\<close> makes of the file's bytes:
  the pages of the document, or \<open>None\<close> when loading throws.
\<close>

record File =
  fname :: string
  fsize :: nat
  lastModified :: int
  mime :: string
  pdf_content :: "pdf_page list option"

section \<open>Rendering numbers in template literals\<close>

definition digit_char :: "nat \<Rightarrow> char" where
  "digit_char d = char_of (48 + d)"

function show_nat :: "nat \<Rightarrow> string" where
  "show_nat n = (if n < 10 then [digit_char n]
                 else show_nat (n div 10) @ [digit_char (n mod 10)])"
  by pat_completeness auto
termination
  by (relation "measure (\<lambda>n. n)") auto

declare show_nat.simps [simp del]

definition show_int :: "int \<Rightarrow> string" where
  "show_int i = (if i < 0 then CHR ''-'' # show_nat (nat (- i)) else show_nat (nat i))"

section \<open>Field-tracking store (\<^verbatim>\<open>UseFieldTracking.tsx\<close>)\<close>

text \<open>
  The hook's state \<^verbatim>\<open>documentsWithFields\<close> is a \<^verbatim>\<open>Map<string, PlacedField[]>\<close>.
  Each updater copies the previous map and changes one key; the model passes the map
  and returns the new one.
\<close>

type_synonym store = "string \<rightharpoonup> PlacedField list"

definition getDocumentKey :: "File \<Rightarrow> string" where
  "getDocumentKey f = fname f @ ''-'' @ show_nat (fsize f) @ ''-'' @ show_int (lastModified f)"

definition updateDocumentFields :: "store \<Rightarrow> File \<Rightarrow> PlacedField list \<Rightarrow> store" where
  "updateDocumentFields prev f flds = prev(getDocumentKey f \<mapsto> flds)"

text \<open>
  \<^verbatim>\<open>documentsWithFields.get(key) || []\<close>: an array, also an empty one, is truthy,
  so only a missing key gives the fresh empty array.
\<close>

definition getDocumentFields :: "store \<Rightarrow> File \<Rightarrow> PlacedField list" where
  "getDocumentFields s f = (case s (getDocumentKey f) of None \<Rightarrow> [] | Some flds \<Rightarrow> flds)"

definition removeDocumentFields :: "store \<Rightarrow> File \<Rightarrow> store" where
  "removeDocumentFields prev f = prev(getDocumentKey f := None)"

definition hasFields :: "store \<Rightarrow> File \<Rightarrow> bool" where
  "hasFields s f = (length (getDocumentFields s f) > 0)"

definition getFieldCount :: "store \<Rightarrow> File \<Rightarrow> nat" where
  "getFieldCount s f = length (getDocumentFields s f)"

section \<open>Placement engine\<close>

subsection \<open>Gesture path: \<^verbatim>\<open>handleDragEnd\<close> of \<^verbatim>\<open>DocumentPreview.tsx\<close>\<close>

text \<open>
  What the handler reads of a \<^verbatim>\<open>DragEndEvent\<close>: \<^verbatim>\<open>over?.id\<close>,
  \<^verbatim>\<open>active.data.current?.type\<close>, \<^verbatim>\<open>active.data.current.fieldType\<close> and
  \<^verbatim>\<open>delta\<close> (\<open>None\<close> when the property is missing).
\<close>

record DragEndEvent =
  over_id :: "string option"
  active_type :: "string option"
  active_fieldType :: FieldType
  delta :: "(real \<times> real) option"

text \<open>
  The component state of the preview dialog: \<^verbatim>\<open>placedFields\<close>,
  \<^verbatim>\<open>currentPage\<close> and \<^verbatim>\<open>activeField\<close>.
\<close>

record preview =
  placedFields :: "PlacedField list"
  currentPage :: int
  activeField :: "(string \<times> FieldType) option"

text \<open>
  The drop position the gesture handler computes, its locals \<^verbatim>\<open>x\<close> and \<^verbatim>\<open>y\<close>:
  \<^verbatim>\<open>const x = dropEvent.delta.x + 100\<close> and \<^verbatim>\<open>const y = dropEvent.delta.y + 100\<close>
  (\<open>None\<close> when the event has no delta).
\<close>

definition dragEndPosition :: "DragEndEvent \<Rightarrow> (real \<times> real) option" where
  "dragEndPosition ev =
     (case delta ev of None \<Rightarrow> None | Some (dx, dy) \<Rightarrow> Some (dx + 100, dy + 100))"

text \<open>
  The record built inside \<^verbatim>\<open>handleDragEnd\<close>, or \<open>None\<close> when one of its guards
  fails. \<open>rect\<close> tells whether the drop-zone element was found
  (\<^verbatim>\<open>document.getElementById("document-drop-zone")?.getBoundingClientRect()\<close>);
  \<open>now\<close> is the value of \<^verbatim>\<open>Date.now()\<close>.
\<close>

definition dragEndField :: "DragEndEvent \<Rightarrow> bool \<Rightarrow> int \<Rightarrow> int \<Rightarrow> PlacedField option" where
  "dragEndField ev rect now cur =
     (if over_id ev = Some ''document-drop-zone'' \<and> active_type ev = Some ''field'' then
        (case delta ev of
           None \<Rightarrow> None
         | Some (dx, dy) \<Rightarrow>
             if rect then
               (let x = dx + 100; y = dy + 100 in
                Some \<lparr> fid = ''placed-'' @ fieldTypeName (active_fieldType ev) @ ''-'' @ show_int now,
                       ftype = active_fieldType ev,
                       fx = max 0 (x - 50),
                       fy = max 0 (y - 15),
                       fpage = cur,
                       fwidth = (if active_fieldType ev = Signature then 120 else 100),
                       fheight = (if active_fieldType ev = Signature then 40 else 30),
                       fvalue = None \<rparr>)
             else None)
      else None)"

text \<open>
  \<^verbatim>\<open>handleFieldPlaced\<close> and \<^verbatim>\<open>handleFieldRemoved\<close> set the component state and call
  \<^verbatim>\<open>onFieldsChanged\<close> with the new list. The host (\<^verbatim>\<open>DocumentUpload\<close>) passes
  \<^verbatim>\<open>(fields) => handleFieldsChanged(previewFile, fields)\<close>, which is
  \<^verbatim>\<open>updateDocumentFields\<close>; the model threads the store next to the component state.
\<close>

definition handleFieldPlaced :: "File \<Rightarrow> preview \<times> store \<Rightarrow> PlacedField \<Rightarrow> preview \<times> store" where
  "handleFieldPlaced doc ps field =
     (let newFields = placedFields (fst ps) @ [field]
      in ((fst ps)\<lparr> placedFields := newFields \<rparr>, updateDocumentFields (snd ps) doc newFields))"

definition handleFieldRemoved :: "File \<Rightarrow> preview \<times> store \<Rightarrow> string \<Rightarrow> preview \<times> store" where
  "handleFieldRemoved doc ps fieldId =
     (let newFields = filter (\<lambda>field. fid field \<noteq> fieldId) (placedFields (fst ps))
      in ((fst ps)\<lparr> placedFields := newFields \<rparr>, updateDocumentFields (snd ps) doc newFields))"

definition handleDragStart ::
  "preview \<times> store \<Rightarrow> string \<Rightarrow> string option \<Rightarrow> FieldType \<Rightarrow> preview \<times> store" where
  "handleDragStart ps active_id data_type fieldType =
     (if data_type = Some ''field''
      then ((fst ps)\<lparr> activeField := Some (active_id, fieldType) \<rparr>, snd ps)
      else ps)"

definition handleDragEnd ::
  "File \<Rightarrow> preview \<times> store \<Rightarrow> DragEndEvent \<Rightarrow> bool \<Rightarrow> int \<Rightarrow> preview \<times> store" where
  "handleDragEnd doc ps ev rect now =
     (let ps1 = ((fst ps)\<lparr> activeField := None \<rparr>, snd ps) in
      case dragEndField ev rect now (currentPage (fst ps)) of
        None \<Rightarrow> ps1
      | Some newField \<Rightarrow> handleFieldPlaced doc ps1 newField)"

subsection \<open>Native path: \<^verbatim>\<open>handleDrop\<close> of \<^verbatim>\<open>DocumentFieldOverlay.tsx\<close>\<close>

text \<open>
  What the handler reads of its \<^verbatim>\<open>React.DragEvent\<close>: the pointer position, the
  bounding rectangle of the drop surface, whether a gesture-library drag is active
  (\<^verbatim>\<open>activeElement\<close>), and the \<^verbatim>\<open>fieldType\<close> entry of the data transfer (\<open>None\<close> for
  the empty string).
\<close>

record DropEvent =
  clientX :: real
  clientY :: real
  rect_left :: real
  rect_top :: real
  activeElement :: bool
  dataTransfer_fieldType :: "FieldType option"

definition dropField :: "DropEvent \<Rightarrow> int \<Rightarrow> int \<Rightarrow> PlacedField option" where
  "dropField ev now cur =
     (let x = clientX ev - rect_left ev; y = clientY ev - rect_top ev in
      if activeElement ev then None
      else case dataTransfer_fieldType ev of
             None \<Rightarrow> None
           | Some fieldType \<Rightarrow>
               Some \<lparr> fid = ''placed-'' @ fieldTypeName fieldType @ ''-'' @ show_int now,
                      ftype = fieldType,
                      fx = x - 50,
                      fy = y - 15,
                      fpage = cur,
                      fwidth = (if fieldType = Signature then 120 else 100),
                      fheight = (if fieldType = Signature then 40 else 30),
                      fvalue = None \<rparr>)"

text \<open>
  \<^verbatim>\<open>handleDrop\<close> hands the record to its \<^verbatim>\<open>onFieldPlaced\<close> property; the handler of
  that shape in the preview dialog is \<^verbatim>\<open>handleFieldPlaced\<close>, and the overlay's
  \<^verbatim>\<open>currentPage\<close> is the dialog's.
\<close>

definition handleDrop :: "File \<Rightarrow> preview \<times> store \<Rightarrow> DropEvent \<Rightarrow> int \<Rightarrow> preview \<times> store" where
  "handleDrop doc ps ev now =
     (case dropField ev now (currentPage (fst ps)) of
        None \<Rightarrow> ps
      | Some newField \<Rightarrow> handleFieldPlaced doc ps newField)"

subsection \<open>A placement session\<close>

text \<open>
  The user's actions in the preview dialog, each with what the environment supplies to
  its handler, and the dialog opened on a document: the state starts from
  \<^verbatim>\<open>initialFields = getDocumentFields(previewFile)\<close> on page 1.
\<close>

datatype gesture =
    DragStart string "string option" FieldType
  | DragEnd DragEndEvent bool int
  | NativeDrop DropEvent int
  | RemoveClick string

fun gesture_step :: "File \<Rightarrow> preview \<times> store \<Rightarrow> gesture \<Rightarrow> preview \<times> store" where
  "gesture_step doc ps (DragStart active_id data_type fieldType) =
     handleDragStart ps active_id data_type fieldType"
| "gesture_step doc ps (DragEnd ev rect now) = handleDragEnd doc ps ev rect now"
| "gesture_step doc ps (NativeDrop ev now) = handleDrop doc ps ev now"
| "gesture_step doc ps (RemoveClick fieldId) = handleFieldRemoved doc ps fieldId"

definition openPreview :: "store \<Rightarrow> File \<Rightarrow> preview \<times> store" where
  "openPreview s doc =
     (\<lparr> placedFields = getDocumentFields s doc, currentPage = 1, activeField = None \<rparr>, s)"

definition placement_session :: "store \<Rightarrow> File \<Rightarrow> gesture list \<Rightarrow> preview \<times> store" where
  "placement_session s doc gs = foldl (gesture_step doc) (openPreview s doc) gs"

subsection \<open>The upload component around the dialog\<close>

text \<open>
  What changes the store in \<^verbatim>\<open>DocumentUpload\<close>: a preview dialog opened on an uploaded
  file (its \<^verbatim>\<open>onFieldsChanged\<close> writes the store), and \<^verbatim>\<open>removeFile\<close>, which calls
  \<^verbatim>\<open>removeDocumentFields\<close>. The store of a fresh component is the empty map.
\<close>

datatype upload_action = Preview File "gesture list" | RemoveFile File

fun upload_step :: "store \<Rightarrow> upload_action \<Rightarrow> store" where
  "upload_step s (Preview doc gs) = snd (placement_session s doc gs)"
| "upload_step s (RemoveFile doc) = removeDocumentFields s doc"

definition upload_session :: "upload_action list \<Rightarrow> store" where
  "upload_session acts = foldl upload_step Map.empty acts"

section \<open>Coordinate transform and compositor (\<^verbatim>\<open>PdfGenerator\<close>)\<close>

record SignatureData =
  sd_name :: string
  sd_email :: string
  sd_date :: string
  sd_signature :: string

record Blob =
  blob_type :: string
  blob_pages :: "pdf_page list"

text \<open>
  What can be thrown while a document is generated: \<^verbatim>\<open>PDFDocument.load\<close> rejects the
  bytes, the signature image cannot be decoded or embedded, \<^verbatim>\<open>page.drawText\<close> is given a
  text that the standard font cannot encode; and the error that \<^verbatim>\<open>generateSignedPDF\<close>
  throws in place of any of them.
\<close>

datatype error = LoadError | DecodeError | EncodingError | Failed_to_generate_signed_PDF

text \<open>Where a drawing call puts its content: the \<^verbatim>\<open>x\<close> and \<^verbatim>\<open>y\<close> options.\<close>

fun draw_x :: "draw_op \<Rightarrow> real" where
  "draw_x (DrawText t x y sz fo c) = x"
| "draw_x (DrawImage x y w h) = x"

fun draw_y :: "draw_op \<Rightarrow> real" where
  "draw_y (DrawText t x y sz fo c) = y"
| "draw_y (DrawImage x y w h) = y"

definition black :: "real \<times> real \<times> real" where
  "black = (0, 0, 0)"

definition grey :: "real \<times> real \<times> real" where
  "grey = (0.5, 0.5, 0.5)"

text \<open>
  The transform of the compositor:
  \<^verbatim>\<open>const pdfX = (field.x / 600) * pageWidth\<close> and
  \<^verbatim>\<open>const pdfY = pageHeight - (field.y / 800) * pageHeight - 20\<close>.
\<close>

definition pdfX :: "PlacedField \<Rightarrow> real \<Rightarrow> real" where
  "pdfX field pageWidth = (fx field / 600) * pageWidth"

definition pdfY :: "PlacedField \<Rightarrow> real \<Rightarrow> real" where
  "pdfY field pageHeight = pageHeight - (fy field / 800) * pageHeight - 20"

text \<open>
  The body of \<^verbatim>\<open>fields.forEach((field) => ...)\<close>: the one drawing call made for a field
  on a page of the given size. \<open>signatureImage\<close> tells whether the embedded signature image
  is non-null.
\<close>

definition drawField :: "bool \<Rightarrow> SignatureData \<Rightarrow> real \<Rightarrow> real \<Rightarrow> PlacedField \<Rightarrow> draw_op" where
  "drawField signatureImage signatureData pageWidth pageHeight field =
     (case ftype field of
        Signature \<Rightarrow>
          if signatureImage then
            DrawImage (pdfX field pageWidth) (pdfY field pageHeight - 30)
              (min (fwidth field * 1.5) 120) (min (fheight field * 1.5) 40)
          else
            DrawText ''[Digital Signature]'' (pdfX field pageWidth) (pdfY field pageHeight)
              10 Helvetica black
      | Name \<Rightarrow>
          DrawText (sd_name signatureData) (pdfX field pageWidth) (pdfY field pageHeight)
            12 Helvetica black
      | Email \<Rightarrow>
          DrawText (sd_email signatureData) (pdfX field pageWidth) (pdfY field pageHeight)
            10 Helvetica black
      | Date \<Rightarrow>
          DrawText (sd_date signatureData) (pdfX field pageWidth) (pdfY field pageHeight)
            10 Helvetica black)"

text \<open>
  Carrying out a drawing call. \<^verbatim>\<open>page.drawText\<close> throws when the font cannot encode the
  text and then leaves the page as it was; \<^verbatim>\<open>page.drawImage\<close> of an embedded image does
  not throw. The encoder of the standard font belongs to the document engine, which is not
  among the sources: \<open>encodes\<close> tells which texts it accepts. \<open>draw_all\<close> is a run of calls
  one after the other, which the first throw ends.
\<close>

fun accepts :: "(string \<Rightarrow> bool) \<Rightarrow> draw_op \<Rightarrow> bool" where
  "accepts encodes (DrawText t x y sz fo c) = encodes t"
| "accepts encodes (DrawImage x y w h) = True"

definition draw :: "(string \<Rightarrow> bool) \<Rightarrow> pdf_page \<Rightarrow> draw_op \<Rightarrow> error + pdf_page" where
  "draw encodes page d =
     (if accepts encodes d then Inr (page\<lparr> pops := pops page @ [d] \<rparr>) else Inl EncodingError)"

fun draw_all :: "(string \<Rightarrow> bool) \<Rightarrow> pdf_page \<Rightarrow> draw_op list \<Rightarrow> error + pdf_page" where
  "draw_all encodes page [] = Inr page"
| "draw_all encodes page (d # ds) =
     (case draw encodes page d of
        Inl e \<Rightarrow> Inl e
      | Inr page' \<Rightarrow> draw_all encodes page' ds)"

text \<open>
  \<^verbatim>\<open>fieldsByPage\<close> is a JavaScript \<^verbatim>\<open>Map<number, PlacedField[]>\<close>, which keeps its keys
  in insertion order: an association list with \<open>map_has\<close>, \<open>map_set\<close> (a new key goes to
  the end, a known key keeps its place) and \<open>map_push\<close> for
  \<^verbatim>\<open>fieldsByPage.get(k)!.push(field)\<close>, which appends to the array stored under the key.
\<close>

fun map_has :: "int \<Rightarrow> (int \<times> 'v) list \<Rightarrow> bool" where
  "map_has k [] = False"
| "map_has k ((k', v) # m) = (k = k' \<or> map_has k m)"

fun map_set :: "int \<Rightarrow> 'v \<Rightarrow> (int \<times> 'v) list \<Rightarrow> (int \<times> 'v) list" where
  "map_set k v [] = [(k, v)]"
| "map_set k v ((k', v') # m) = (if k = k' then (k, v) # m else (k', v') # map_set k v m)"

fun map_push :: "int \<Rightarrow> 'a \<Rightarrow> (int \<times> 'a list) list \<Rightarrow> (int \<times> 'a list) list" where
  "map_push k a [] = []"
| "map_push k a ((k', v) # m) = (if k = k' then (k', v @ [a]) # m else (k', v) # map_push k a m)"

definition group_step :: "(int \<times> PlacedField list) list \<Rightarrow> PlacedField \<Rightarrow> (int \<times> PlacedField list) list" where
  "group_step m field =
     (let m1 = (if \<not> map_has (fpage field) m then map_set (fpage field) [] m else m)
      in map_push (fpage field) field m1)"

definition fieldsByPage :: "PlacedField list \<Rightarrow> (int \<times> PlacedField list) list" where
  "fieldsByPage fieldPositions = foldl group_step [] fieldPositions"

text \<open>
  The body of \<^verbatim>\<open>fieldsByPage.forEach((fields, pageNumber) => ...)\<close>: a group whose page
  index is outside the document is passed over; otherwise each field of the group is drawn
  on the page, in order. A throw of a drawing call ends the whole loop.
\<close>

definition apply_group ::
  "(string \<Rightarrow> bool) \<Rightarrow> bool \<Rightarrow> SignatureData \<Rightarrow> pdf_page list \<Rightarrow> int \<times> PlacedField list
     \<Rightarrow> error + pdf_page list" where
  "apply_group encodes signatureImage signatureData pages g =
     (let pageIndex = fst g - 1 in
      if pageIndex \<ge> 0 \<and> pageIndex < int (length pages) then
        (let page = pages ! nat pageIndex;
             pageWidth = pwidth page; pageHeight = pheight page
         in case draw_all encodes page
                   (map (drawField signatureImage signatureData pageWidth pageHeight) (snd g)) of
              Inl e \<Rightarrow> Inl e
            | Inr page' \<Rightarrow> Inr (pages[nat pageIndex := page']))
      else Inr pages)"

fun apply_groups ::
  "(string \<Rightarrow> bool) \<Rightarrow> bool \<Rightarrow> SignatureData \<Rightarrow> pdf_page list \<Rightarrow> (int \<times> PlacedField list) list
     \<Rightarrow> error + pdf_page list" where
  "apply_groups encodes signatureImage signatureData pages [] = Inr pages"
| "apply_groups encodes signatureImage signatureData pages (g # gs) =
     (case apply_group encodes signatureImage signatureData pages g of
        Inl e \<Rightarrow> Inl e
      | Inr pages' \<Rightarrow> apply_groups encodes signatureImage signatureData pages' gs)"

definition apply_fields ::
  "(string \<Rightarrow> bool) \<Rightarrow> bool \<Rightarrow> SignatureData \<Rightarrow> pdf_page list \<Rightarrow> PlacedField list
     \<Rightarrow> error + pdf_page list" where
  "apply_fields encodes signatureImage signatureData pages fieldPositions =
     apply_groups encodes signatureImage signatureData pages (fieldsByPage fieldPositions)"

text \<open>
  \<^verbatim>\<open>generatePDFWithPositionedFields\<close>. \<open>decodes\<close> tells for which data URLs the chain
  \<^verbatim>\<open>convertImageToPng\<close>, \<^verbatim>\<open>fetch\<close>, \<^verbatim>\<open>embedPng\<close> succeeds; a failure there is caught
  and leaves \<^verbatim>\<open>signatureImage\<close> null. A failing \<^verbatim>\<open>PDFDocument.load\<close> and a throwing
  \<^verbatim>\<open>page.drawText\<close> are not caught here.
\<close>

definition generatePDFWithPositionedFields ::
  "(string \<Rightarrow> bool) \<Rightarrow> (string \<Rightarrow> bool) \<Rightarrow> File \<Rightarrow> SignatureData \<Rightarrow> PlacedField list
     \<Rightarrow> error + Blob" where
  "generatePDFWithPositionedFields encodes decodes originalFile signatureData fieldPositions =
     (case pdf_content originalFile of
        None \<Rightarrow> Inl LoadError
      | Some pages \<Rightarrow>
          (let signatureImage = (sd_signature signatureData \<noteq> [] \<and> decodes (sd_signature signatureData))
           in case apply_fields encodes signatureImage signatureData pages fieldPositions of
                Inl e \<Rightarrow> Inl e
              | Inr pages' \<Rightarrow> Inr \<lparr> blob_type = ''application/pdf'', blob_pages = pages' \<rparr>))"

section \<open>Output assembly\<close>

text \<open>
  \<^verbatim>\<open>generateSignaturePagePDF\<close> synthesizes a 612 by 792 page: the title and the signer
  summary; then, when there is a signature, inside \<^verbatim>\<open>try\<close> the label and the image, and in
  the \<^verbatim>\<open>catch\<close> the placeholder text; then a time stamp line. \<open>stamp\<close> is the text of
  \<^verbatim>\<open>new Date().toLocaleString()\<close>. The page is prepended to the original document when
  that is a PDF which loads; a failure of the merge is caught and the page returned alone,
  as it is for a file that is not a PDF.
\<close>

definition generateSignaturePagePDF ::
  "(string \<Rightarrow> bool) \<Rightarrow> (string \<Rightarrow> bool) \<Rightarrow> string \<Rightarrow> File \<Rightarrow> SignatureData \<Rightarrow> error + Blob" where
  "generateSignaturePagePDF encodes decodes stamp originalFile signatureData =
     (let yStart = 650; lineHeight = 30;
          page0 = \<lparr> pwidth = 612, pheight = 792, pops = [] \<rparr>
      in
      case draw_all encodes page0
             [ DrawText ''Document Signature'' 50 720 24 HelveticaBold black,
               DrawText ''Signer Information:'' 50 yStart 16 HelveticaBold black,
               DrawText (''Name: '' @ sd_name signatureData) 50 (yStart - lineHeight) 12 Helvetica black,
               DrawText (''Email: '' @ sd_email signatureData) 50 (yStart - lineHeight * 2) 12 Helvetica black,
               DrawText (''Date: '' @ sd_date signatureData) 50 (yStart - lineHeight * 3) 12 Helvetica black ] of
        Inl e \<Rightarrow> Inl e
      | Inr page1 \<Rightarrow>
          (case (if sd_signature signatureData \<noteq> [] then
                   (case (if decodes (sd_signature signatureData) then
                            draw_all encodes page1
                              [ DrawText ''Signature:'' 50 (yStart - lineHeight * 5) 12 HelveticaBold black,
                                DrawImage 50 (yStart - lineHeight * 8) 200 80 ]
                          else Inl DecodeError) of
                      Inr page' \<Rightarrow> Inr page'
                    | Inl e \<Rightarrow>
                        draw encodes page1
                          (DrawText ''Signature: [Digital Signature Applied]'' 50 (yStart - lineHeight * 5)
                             12 Helvetica black))
                 else Inr page1) of
             Inl e \<Rightarrow> Inl e
           | Inr page2 \<Rightarrow>
               (case draw encodes page2
                       (DrawText (''Document signed on: '' @ stamp) 50 50 10 Helvetica grey) of
                  Inl e \<Rightarrow> Inl e
                | Inr page \<Rightarrow>
                    Inr (if mime originalFile = ''application/pdf'' then
                           (case pdf_content originalFile of
                              Some originalPages \<Rightarrow>
                                \<lparr> blob_type = ''application/pdf'', blob_pages = page # originalPages \<rparr>
                            | None \<Rightarrow> \<lparr> blob_type = ''application/pdf'', blob_pages = [page] \<rparr>)
                         else \<lparr> blob_type = ''application/pdf'', blob_pages = [page] \<rparr>))))"

text \<open>
  \<^verbatim>\<open>generateSignedPDF\<close>: whatever is thrown inside is caught and replaced by
  \<^verbatim>\<open>new Error("Failed to generate signed PDF")\<close>.
\<close>

definition generateSignedPDF ::
  "(string \<Rightarrow> bool) \<Rightarrow> (string \<Rightarrow> bool) \<Rightarrow> string \<Rightarrow> File \<Rightarrow> SignatureData \<Rightarrow> PlacedField list
     \<Rightarrow> error + Blob" where
  "generateSignedPDF encodes decodes stamp originalFile signatureData fieldPositions =
     (case (if mime originalFile = ''application/pdf'' \<and> length fieldPositions > 0 then
              generatePDFWithPositionedFields encodes decodes originalFile signatureData fieldPositions
            else generateSignaturePagePDF encodes decodes stamp originalFile signatureData) of
        Inl e \<Rightarrow> Inl Failed_to_generate_signed_PDF
      | Inr blob \<Rightarrow> Inr blob)"

section \<open>Finalize: \<^verbatim>\<open>handleDownloadDocument\<close> of the upload component\<close>

text \<open>
  The state the handler can touch: the field-tracking store, the
  \<^verbatim>\<open>isGeneratingPDF\<close> flag, and the two effects it has on the user, the messages shown
  by \<^verbatim>\<open>alert\<close> and the downloads offered by \<^verbatim>\<open>downloadBlob(blob, filename)\<close>.
\<close>

record ui =
  documentsWithFields :: store
  isGeneratingPDF :: bool
  alerts :: "string list"
  downloads :: "(Blob \<times> string) list"

text \<open>
  \<^verbatim>\<open>String.prototype.trim\<close> strips white space and line terminators from both ends.
  Characters are 8-bit here, so these are the code units 9 to 13, 32 and 160.
\<close>

definition js_whitespace :: "char \<Rightarrow> bool" where
  "js_whitespace c = ((of_char c :: nat) \<in> {9, 10, 11, 12, 13, 32, 160})"

definition trim :: "string \<Rightarrow> string" where
  "trim s = rev (dropWhile js_whitespace (rev (dropWhile js_whitespace s)))"

text \<open>The filter predicate \<^verbatim>\<open>!field.value || field.value.trim() === ""\<close>.\<close>

definition emptyField :: "PlacedField \<Rightarrow> bool" where
  "emptyField field =
     (case fvalue field of None \<Rightarrow> True | Some v \<Rightarrow> v = [] \<or> trim v = [])"

text \<open>\<^verbatim>\<open>fields.find((f) => f.type === t)?.value || ""\<close>.\<close>

definition findValue :: "FieldType \<Rightarrow> PlacedField list \<Rightarrow> string" where
  "findValue t flds =
     (case find (\<lambda>f. ftype f = t) flds of
        None \<Rightarrow> []
      | Some f \<Rightarrow> (case fvalue f of None \<Rightarrow> [] | Some v \<Rightarrow> v))"

text \<open>\<^verbatim>\<open>file.name.split(".")[0]\<close>: the name up to its first dot.\<close>

definition originalName :: "string \<Rightarrow> string" where
  "originalName name = takeWhile (\<lambda>c. c \<noteq> CHR ''.'') name"

definition handleDownloadDocument ::
  "(string \<Rightarrow> bool) \<Rightarrow> (string \<Rightarrow> bool) \<Rightarrow> string \<Rightarrow> ui \<Rightarrow> File \<Rightarrow> ui" where
  "handleDownloadDocument encodes decodes stamp u doc =
     (let flds = getDocumentFields (documentsWithFields u) doc in
      if length flds = 0 then
        u\<lparr> alerts := alerts u @ [''Please add and fill some fields before downloading.''] \<rparr>
      else
        (let emptyFields = filter emptyField flds in
         if length emptyFields > 0 then
           u\<lparr> alerts := alerts u @ [''Please fill in all fields before downloading.''] \<rparr>
         else
           (let signatureData =
                  \<lparr> sd_name = findValue Name flds,
                    sd_email = findValue Email flds,
                    sd_date = findValue Date flds,
                    sd_signature = findValue Signature flds \<rparr>
            in case generateSignedPDF encodes decodes stamp doc signatureData flds of
                 Inr signedPdfBlob \<Rightarrow>
                   u\<lparr> downloads := downloads u @ [(signedPdfBlob, originalName (fname doc) @ ''_signed.pdf'')],
                      isGeneratingPDF := False \<rparr>
               | Inl e \<Rightarrow>
                   u\<lparr> alerts := alerts u @ [''Error generating signed document. Please try again.''],
                      isGeneratingPDF := False \<rparr>)))"

section \<open>The pages of a successful run\<close>

text \<open>
  What the compositor and the summary page hold when no drawing call throws: the pages
  after the groups of fields have been drawn on them, and the summary page with all its
  drawing calls. They serve to state what the functions above return.
\<close>

definition drawn_group ::
  "bool \<Rightarrow> SignatureData \<Rightarrow> pdf_page list \<Rightarrow> int \<times> PlacedField list \<Rightarrow> pdf_page list" where
  "drawn_group signatureImage signatureData pages g =
     (let pageIndex = fst g - 1 in
      if pageIndex \<ge> 0 \<and> pageIndex < int (length pages) then
        (let page = pages ! nat pageIndex;
             pageWidth = pwidth page; pageHeight = pheight page
         in pages[nat pageIndex :=
              page\<lparr> pops := pops page @
                map (drawField signatureImage signatureData pageWidth pageHeight) (snd g) \<rparr>])
      else pages)"

definition drawn_fields ::
  "bool \<Rightarrow> SignatureData \<Rightarrow> pdf_page list \<Rightarrow> PlacedField list \<Rightarrow> pdf_page list" where
  "drawn_fields signatureImage signatureData pages fieldPositions =
     foldl (drawn_group signatureImage signatureData) pages (fieldsByPage fieldPositions)"

text \<open>Whether the drawing call made for a field is one that the engine accepts.\<close>

definition field_encodable :: "(string \<Rightarrow> bool) \<Rightarrow> bool \<Rightarrow> SignatureData \<Rightarrow> PlacedField \<Rightarrow> bool" where
  "field_encodable encodes signatureImage signatureData field =
     (case ftype field of
        Signature \<Rightarrow> signatureImage \<or> encodes ''[Digital Signature]''
      | Name \<Rightarrow> encodes (sd_name signatureData)
      | Email \<Rightarrow> encodes (sd_email signatureData)
      | Date \<Rightarrow> encodes (sd_date signatureData))"

definition signaturePage :: "(string \<Rightarrow> bool) \<Rightarrow> string \<Rightarrow> SignatureData \<Rightarrow> pdf_page" where
  "signaturePage decodes stamp signatureData =
     \<lparr> pwidth = 612, pheight = 792,
       pops =
         [ DrawText ''Document Signature'' 50 720 24 HelveticaBold black,
           DrawText ''Signer Information:'' 50 650 16 HelveticaBold black,
           DrawText (''Name: '' @ sd_name signatureData) 50 620 12 Helvetica black,
           DrawText (''Email: '' @ sd_email signatureData) 50 590 12 Helvetica black,
           DrawText (''Date: '' @ sd_date signatureData) 50 560 12 Helvetica black ]
         @ (if sd_signature signatureData \<noteq> [] then
              (if decodes (sd_signature signatureData) then
                 [ DrawText ''Signature:'' 50 500 12 HelveticaBold black,
                   DrawImage 50 410 200 80 ]
               else
                 [ DrawText ''Signature: [Digital Signature Applied]'' 50 500 12 Helvetica black ])
            else [])
         @ [ DrawText (''Document signed on: '' @ stamp) 50 50 10 Helvetica grey ] \<rparr>"

text \<open>
  An encoder for worked examples: it accepts the texts made of printable ASCII characters
  only. The standard font's encoding contains these characters and no control character.
\<close>

definition ascii_text :: "string \<Rightarrow> bool" where
  "ascii_text t = list_all (\<lambda>c. 32 \<le> (of_char c :: nat) \<and> (of_char c :: nat) \<le> 126) t"

section \<open>Invariants of the store\<close>

text \<open>
  No stored field carries a value: the invariant that placement keeps, for the store alone
  and for the store together with the state of an open preview dialog.
\<close>

definition unfilled_store :: "store \<Rightarrow> bool" where
  "unfilled_store s \<longleftrightarrow> (\<forall>k flds. s k = Some flds \<longrightarrow> (\<forall>f \<in> set flds. fvalue f = None))"

definition unfilled_state :: "preview \<times> store \<Rightarrow> bool" where
  "unfilled_state ps \<longleftrightarrow> (\<forall>f \<in> set (placedFields (fst ps)). fvalue f = None) \<and> unfilled_store (snd ps)"

section \<open>Properties of number rendering\<close>

lemma of_char_digit_char: "d < 10 \<Longrightarrow> (of_char (digit_char d) :: nat) = 48 + d"
  unfolding digit_char_def of_char_of by (rule mod_less) arith

lemma digit_char_inj: "a < 10 \<Longrightarrow> b < 10 \<Longrightarrow> digit_char a = digit_char b \<Longrightarrow> a = b"
  by (metis of_char_digit_char add_left_cancel)

lemma digit_char_not_minus: "d < 10 \<Longrightarrow> digit_char d \<noteq> CHR ''-''"
proof
  assume d: "d < 10" and e: "digit_char d = CHR ''-''"
  have "(of_char (digit_char d) :: nat) = 45" unfolding e by simp
  with of_char_digit_char [OF d] show False by arith
qed

lemma show_nat_nonempty: "show_nat n \<noteq> []"
  by (subst show_nat.simps) simp

lemma show_nat_hd_not_minus: "hd (show_nat n) \<noteq> CHR ''-''"
proof (induction n rule: show_nat.induct)
  case (1 n)
  show ?case
  proof (cases "n < 10")
    case True
    then show ?thesis by (subst show_nat.simps) (simp add: digit_char_not_minus)
  next
    case False
    with 1 show ?thesis by (subst show_nat.simps) (simp add: show_nat_nonempty)
  qed
qed

lemma show_nat_inj: "show_nat n = show_nat m \<Longrightarrow> n = m"
proof (induction n arbitrary: m rule: show_nat.induct)
  case (1 n)
  show ?case
  proof (cases "n < 10")
    case n: True
    show ?thesis
    proof (cases "m < 10")
      case True
      with n "1.prems" show ?thesis
        by (simp add: show_nat.simps [of n] show_nat.simps [of m] digit_char_inj)
    next
      case False
      with n "1.prems" show_nat_nonempty [of "m div 10"] show ?thesis
        by (simp add: show_nat.simps [of n] show_nat.simps [of m])
    qed
  next
    case n: False
    show ?thesis
    proof (cases "m < 10")
      case True
      with n "1.prems" show ?thesis
        by (simp add: show_nat.simps [of n] show_nat.simps [of m] show_nat_nonempty)
    next
      case False
      with n "1.prems" have e: "show_nat (n div 10) = show_nat (m div 10)"
        and d: "digit_char (n mod 10) = digit_char (m mod 10)"
        by (simp_all add: show_nat.simps [of n] show_nat.simps [of m])
      from "1.IH" [OF n e] have "n div 10 = m div 10" .
      moreover from d have "n mod 10 = m mod 10" by (simp add: digit_char_inj)
      ultimately show ?thesis by (metis div_mult_mod_eq)
    qed
  qed
qed

lemma show_int_inj: "show_int i = show_int j \<Longrightarrow> i = j"
proof -
  assume e: "show_int i = show_int j"
  have neg: "\<And>n m. CHR ''-'' # show_nat n \<noteq> show_nat m"
    by (metis list.sel(1) show_nat_hd_not_minus)
  show "i = j"
  proof (cases "i < 0")
    case i: True
    show ?thesis
    proof (cases "j < 0")
      case True
      with i e have "nat (- i) = nat (- j)" by (simp add: show_int_def show_nat_inj)
      with i True show ?thesis by simp
    next
      case False
      with i e neg show ?thesis by (simp add: show_int_def)
    qed
  next
    case i: False
    show ?thesis
    proof (cases "j < 0")
      case True
      with i e neg [of "nat (- j)" "nat i"] show ?thesis by (simp add: show_int_def)
    next
      case False
      with i e have "nat i = nat j" by (simp add: show_int_def show_nat_inj)
      with i False show ?thesis by simp
    qed
  qed
qed

lemma show_int_42: "show_int 42 = ''42''"
  by code_simp

lemma show_int_43: "show_int 43 = ''43''"
  by code_simp

section \<open>Properties of the store\<close>

text \<open>
  C8. Storing a field list for a document and reading the list of a document with the same
  identity gives back that list, in the same order and with the same contents, whatever was
  stored under the identity before; reading an identity that was never set, or that was
  removed, gives the empty list.
\<close>

theorem set_then_get_fields:
  "(getDocumentKey g = getDocumentKey f \<longrightarrow>
      getDocumentFields (updateDocumentFields s f flds) g = flds
      \<and> getDocumentFields (updateDocumentFields (updateDocumentFields s f old) f flds) g = flds)
   \<and> getDocumentFields Map.empty f = []
   \<and> (s (getDocumentKey f) = None \<longrightarrow> getDocumentFields s f = [])
   \<and> getDocumentFields (removeDocumentFields s f) f = []"
  by (simp add: getDocumentFields_def updateDocumentFields_def removeDocumentFields_def)

theorem set_then_get_fields_witness:
  "getDocumentKey \<lparr> fname = ''a.pdf'', fsize = 3, lastModified = 5, mime = ''application/pdf'',
                    pdf_content = None \<rparr>
     = getDocumentKey \<lparr> fname = ''a.pdf'', fsize = 3, lastModified = 5, mime = ''application/pdf'',
                        pdf_content = None \<rparr>
   \<and> Map.empty (getDocumentKey \<lparr> fname = ''a.pdf'', fsize = 3, lastModified = 5,
                                  mime = ''application/pdf'', pdf_content = None \<rparr>)
       = (None :: PlacedField list option)
   \<and> getDocumentFields
       (updateDocumentFields Map.empty
          \<lparr> fname = ''a.pdf'', fsize = 3, lastModified = 5, mime = ''application/pdf'',
            pdf_content = None \<rparr>
          [\<lparr> fid = ''placed-name-7'', ftype = Name, fx = 50, fy = 85, fpage = 1,
             fwidth = 100, fheight = 30, fvalue = None \<rparr>])
       \<lparr> fname = ''a.pdf'', fsize = 3, lastModified = 5, mime = ''application/pdf'',
         pdf_content = None \<rparr>
     = [\<lparr> fid = ''placed-name-7'', ftype = Name, fx = 50, fy = 85, fpage = 1,
          fwidth = 100, fheight = 30, fvalue = None \<rparr>]"
  using set_then_get_fields
    [of "\<lparr> fname = ''a.pdf'', fsize = 3, lastModified = 5, mime = ''application/pdf'',
           pdf_content = None \<rparr>"
        "\<lparr> fname = ''a.pdf'', fsize = 3, lastModified = 5, mime = ''application/pdf'',
           pdf_content = None \<rparr>"
        Map.empty
        "[\<lparr> fid = ''placed-name-7'', ftype = Name, fx = 50, fy = 85, fpage = 1,
            fwidth = 100, fheight = 30, fvalue = None \<rparr>]"]
  by simp

section \<open>Properties of the placement engine\<close>

lemma dragEndField_SomeD:
  assumes "dragEndField ev rect now cur = Some f"
  shows "\<exists>dx dy. delta ev = Some (dx, dy)
           \<and> f = \<lparr> fid = ''placed-'' @ fieldTypeName (active_fieldType ev) @ ''-'' @ show_int now,
                   ftype = active_fieldType ev,
                   fx = max 0 (dx + 100 - 50), fy = max 0 (dy + 100 - 15), fpage = cur,
                   fwidth = (if active_fieldType ev = Signature then 120 else 100),
                   fheight = (if active_fieldType ev = Signature then 40 else 30),
                   fvalue = None \<rparr>"
  using assms
  by (auto simp: dragEndField_def Let_def split: if_splits option.splits)

lemma dropField_SomeD:
  assumes "dropField ev now cur = Some f"
  shows "\<exists>t. dataTransfer_fieldType ev = Some t
           \<and> f = \<lparr> fid = ''placed-'' @ fieldTypeName t @ ''-'' @ show_int now,
                   ftype = t,
                   fx = clientX ev - rect_left ev - 50, fy = clientY ev - rect_top ev - 15,
                   fpage = cur,
                   fwidth = (if t = Signature then 120 else 100),
                   fheight = (if t = Signature then 40 else 30),
                   fvalue = None \<rparr>"
  using assms
  by (auto simp: dropField_def Let_def split: if_splits option.splits)

lemma placed_id_eq_iff:
  "''placed-'' @ fieldTypeName t @ ''-'' @ show_int now
     = ''placed-'' @ fieldTypeName t' @ ''-'' @ show_int now' \<longleftrightarrow> t = t' \<and> now = now'"
  by (cases t; cases t') (auto dest: show_int_inj)

lemma commit_id:
  assumes "dragEndField ev rect now cur = Some f \<or> dropField d now cur = Some f"
  shows "fid f = ''placed-'' @ fieldTypeName (ftype f) @ ''-'' @ show_int now"
  using assms by (auto dest!: dragEndField_SomeD dropField_SomeD)

lemma dragEnd_clamped:
  "dragEndField ev rect now cur = Some f \<Longrightarrow> 0 \<le> fx f \<and> 0 \<le> fy f"
  by (auto dest!: dragEndField_SomeD)

text \<open>
  C5, as the code has it. The id of a committed field is \<^verbatim>\<open>placed-<kind>-<Date.now()>\<close> on
  both drop paths, so the ids of two commits are equal exactly when the commits have the
  same field kind and the same millisecond time stamp; they are distinct whenever the kinds
  or the time stamps differ.
\<close>

theorem placed_ids_distinct:
  assumes "dragEndField ev1 rect1 now1 cur1 = Some f1 \<or> dropField d1 now1 cur1 = Some f1"
    and "dragEndField ev2 rect2 now2 cur2 = Some f2 \<or> dropField d2 now2 cur2 = Some f2"
  shows "fid f1 = fid f2 \<longleftrightarrow> ftype f1 = ftype f2 \<and> now1 = now2"
  unfolding commit_id [OF assms(1)] commit_id [OF assms(2)] by (rule placed_id_eq_iff)

text \<open>A gesture commit of a name field at time 42 and a native drop of one at time 43.\<close>

theorem placed_ids_distinct_witness:
  "(dragEndField \<lparr> over_id = Some ''document-drop-zone'', active_type = Some ''field'',
                   active_fieldType = Name, delta = Some (10, 20) \<rparr> True 42 1
     = Some \<lparr> fid = ''placed-name-42'', ftype = Name, fx = 60, fy = 105, fpage = 1,
              fwidth = 100, fheight = 30, fvalue = None \<rparr>)
   \<and> (dropField \<lparr> clientX = 300, clientY = 400, rect_left = 100, rect_top = 200,
                   activeElement = False, dataTransfer_fieldType = Some Name \<rparr> 43 1
     = Some \<lparr> fid = ''placed-name-43'', ftype = Name, fx = 150, fy = 185, fpage = 1,
              fwidth = 100, fheight = 30, fvalue = None \<rparr>)
   \<and> ''placed-name-42'' \<noteq> ''placed-name-43''"
  using placed_ids_distinct
    [of "\<lparr> over_id = Some ''document-drop-zone'', active_type = Some ''field'',
           active_fieldType = Name, delta = Some (10, 20) \<rparr>" True 42 1
        "\<lparr> fid = ''placed-name-42'', ftype = Name, fx = 60, fy = 105, fpage = 1,
           fwidth = 100, fheight = 30, fvalue = None \<rparr>"
        "\<lparr> clientX = 0, clientY = 0, rect_left = 0, rect_top = 0,
           activeElement = True, dataTransfer_fieldType = None \<rparr>"
        "\<lparr> over_id = None, active_type = None, active_fieldType = Date, delta = None \<rparr>"
        False 43 1
        "\<lparr> fid = ''placed-name-43'', ftype = Name, fx = 150, fy = 185, fpage = 1,
           fwidth = 100, fheight = 30, fvalue = None \<rparr>"
        "\<lparr> clientX = 300, clientY = 400, rect_left = 100, rect_top = 200,
           activeElement = False, dataTransfer_fieldType = Some Name \<rparr>"]
  by (simp add: dragEndField_def dropField_def show_int_42 show_int_43)

text \<open>
  C5 as stated fails: two distinct commits of the same kind in the same millisecond (two
  name fields dropped at different places, both at time 42) get the same id.
\<close>

theorem placed_ids_collide:
  "dragEndField \<lparr> over_id = Some ''document-drop-zone'', active_type = Some ''field'',
                   active_fieldType = Name, delta = Some (10, 20) \<rparr> True 42 1
     = Some \<lparr> fid = ''placed-name-42'', ftype = Name, fx = 60, fy = 105, fpage = 1,
              fwidth = 100, fheight = 30, fvalue = None \<rparr>
   \<and> dragEndField \<lparr> over_id = Some ''document-drop-zone'', active_type = Some ''field'',
                     active_fieldType = Name, delta = Some (200, 300) \<rparr> True 42 1
     = Some \<lparr> fid = ''placed-name-42'', ftype = Name, fx = 250, fy = 385, fpage = 1,
              fwidth = 100, fheight = 30, fvalue = None \<rparr>"
  by (simp add: dragEndField_def show_int_42)

text \<open>
  C2 at the native drop path. \<^verbatim>\<open>handleDrop\<close> stores \<^verbatim>\<open>x - 50\<close> and \<^verbatim>\<open>y - 15\<close>
  unclamped (the gesture path wraps both in \<^verbatim>\<open>Math.max(0, ...)\<close>): a name field dropped
  with the pointer 10 to the right of and 5 below the surface's origin is committed at
  \<open>(-40, -10)\<close>.
\<close>

theorem native_drop_not_clamped:
  "dropField \<lparr> clientX = 110, clientY = 205, rect_left = 100, rect_top = 200,
               activeElement = False, dataTransfer_fieldType = Some Name \<rparr> 42 1
     = Some \<lparr> fid = ''placed-name-42'', ftype = Name, fx = - 40, fy = - 10, fpage = 1,
              fwidth = 100, fheight = 30, fvalue = None \<rparr>"
  by (simp add: dropField_def show_int_42)

text \<open>
  C3 as stated fails for a signature: dropped with the pointer at \<open>(200, 200)\<close> relative to
  the surface it is committed at \<open>(150, 185)\<close>, not at \<open>(200 - 60, 200 - 20)\<close>.
\<close>

theorem signature_drop_offset:
  "dropField \<lparr> clientX = 300, clientY = 400, rect_left = 100, rect_top = 200,
               activeElement = False, dataTransfer_fieldType = Some Signature \<rparr> 42 1
     = Some \<lparr> fid = ''placed-signature-42'', ftype = Signature, fx = 150, fy = 185, fpage = 1,
              fwidth = 120, fheight = 40, fvalue = None \<rparr>
   \<and> (150 :: real) \<noteq> (300 - 100) - 120 / 2 \<and> (185 :: real) \<noteq> (400 - 200) - 40 / 2"
  by (simp add: dropField_def show_int_42)

text \<open>
  C3, as the code has it. For every field kind the committed coordinates are the handler's
  drop position plus the fixed offset \<open>(-50, -15)\<close>, half of the 100 by 30 geometry,
  whatever the kind's own geometry is (signature 120 by 40, all others 100 by 30), before
  clamping: on the native path, where the drop position is the surface-relative pointer
  position, wherever that sum is not negative, and on the gesture path clamped at 0.
\<close>

theorem drop_offset_fixed:
  "(dropField ev now cur = Some f \<longrightarrow>
      (50 \<le> clientX ev - rect_left ev \<longrightarrow> fx f = (clientX ev - rect_left ev) - 50)
      \<and> (15 \<le> clientY ev - rect_top ev \<longrightarrow> fy f = (clientY ev - rect_top ev) - 15)
      \<and> fwidth f = (if ftype f = Signature then 120 else 100)
      \<and> fheight f = (if ftype f = Signature then 40 else 30))
   \<and> (dragEndField ev' rect now' cur' = Some g \<longrightarrow>
        (\<exists>x y. dragEndPosition ev' = Some (x, y)
           \<and> fx g = max 0 (x - 50) \<and> fy g = max 0 (y - 15))
        \<and> fwidth g = (if ftype g = Signature then 120 else 100)
        \<and> fheight g = (if ftype g = Signature then 40 else 30))"
  by (auto simp: dragEndPosition_def dest!: dragEndField_SomeD dropField_SomeD)

text \<open>A signature committed on each of the two paths.\<close>

theorem drop_offset_fixed_witness:
  "dropField \<lparr> clientX = 300, clientY = 400, rect_left = 100, rect_top = 200,
               activeElement = False, dataTransfer_fieldType = Some Signature \<rparr> 42 1
     = Some \<lparr> fid = ''placed-signature-42'', ftype = Signature, fx = 150, fy = 185, fpage = 1,
              fwidth = 120, fheight = 40, fvalue = None \<rparr>
   \<and> dragEndField \<lparr> over_id = Some ''document-drop-zone'', active_type = Some ''field'',
                     active_fieldType = Signature, delta = Some (10, 20) \<rparr> True 43 1
     = Some \<lparr> fid = ''placed-signature-43'', ftype = Signature, fx = 60, fy = 105, fpage = 1,
              fwidth = 120, fheight = 40, fvalue = None \<rparr>
   \<and> (50 :: real) \<le> 300 - 100 \<and> (15 :: real) \<le> 400 - 200
   \<and> (150 :: real) = (300 - 100) - 50 \<and> (185 :: real) = (400 - 200) - 15
   \<and> dragEndPosition \<lparr> over_id = Some ''document-drop-zone'', active_type = Some ''field'',
                        active_fieldType = Signature, delta = Some (10, 20) \<rparr> = Some (110, 120)"
  using drop_offset_fixed
    [of "\<lparr> clientX = 300, clientY = 400, rect_left = 100, rect_top = 200,
           activeElement = False, dataTransfer_fieldType = Some Signature \<rparr>" 42 1
        "\<lparr> fid = ''placed-signature-42'', ftype = Signature, fx = 150, fy = 185, fpage = 1,
           fwidth = 120, fheight = 40, fvalue = None \<rparr>"
        "\<lparr> over_id = Some ''document-drop-zone'', active_type = Some ''field'',
           active_fieldType = Signature, delta = Some (10, 20) \<rparr>" True 43 1
        "\<lparr> fid = ''placed-signature-43'', ftype = Signature, fx = 60, fy = 105, fpage = 1,
           fwidth = 120, fheight = 40, fvalue = None \<rparr>"]
  by (simp add: dropField_def dragEndField_def dragEndPosition_def show_int_42 show_int_43)

section \<open>Properties of the compositor\<close>

lemma map_has_iff: "map_has k m \<longleftrightarrow> k \<in> fst ` set m"
  by (induction m) auto

lemma map_has_map_of: "map_has k m \<longleftrightarrow> map_of m k \<noteq> None"
  by (induction m) auto

lemma keys_map_set:
  "map fst (map_set k v m) = (if map_has k m then map fst m else map fst m @ [k])"
  by (induction m) auto

lemma keys_map_push: "map fst (map_push k a m) = map fst m"
  by (induction m) auto

lemma map_of_map_set: "map_of (map_set k v m) = (map_of m)(k \<mapsto> v)"
  by (induction m) auto

lemma map_of_map_push:
  "map_of (map_push k a m) =
     (case map_of m k of None \<Rightarrow> map_of m | Some v \<Rightarrow> (map_of m)(k \<mapsto> v @ [a]))"
  by (induction m) (auto split: option.splits)

lemma keys_group_step:
  "distinct (map fst m) \<Longrightarrow> distinct (map fst (group_step m f))"
  by (auto simp: group_step_def keys_map_push keys_map_set map_has_iff)

lemma map_of_group_step:
  "map_of (group_step m f) =
     (map_of m)(fpage f \<mapsto> (case map_of m (fpage f) of None \<Rightarrow> [] | Some v \<Rightarrow> v) @ [f])"
  by (auto simp: group_step_def map_of_map_push map_of_map_set map_has_map_of split: option.splits)

lemma fieldsByPage_snoc: "fieldsByPage (fs @ [f]) = group_step (fieldsByPage fs) f"
  by (simp add: fieldsByPage_def)

lemma fieldsByPage_distinct: "distinct (map fst (fieldsByPage fs))"
  by (induction fs rule: rev_induct) (simp_all add: fieldsByPage_def keys_group_step)

lemma filter_page_empty: "k \<notin> fpage ` set fs \<Longrightarrow> filter (\<lambda>f. fpage f = k) fs = []"
  by (induction fs) auto

lemma fieldsByPage_map_of:
  "map_of (fieldsByPage fs) k =
     (if k \<in> fpage ` set fs then Some (filter (\<lambda>f. fpage f = k) fs) else None)"
proof (induction fs rule: rev_induct)
  case Nil
  show ?case by (simp add: fieldsByPage_def)
next
  case (snoc f fs)
  show ?case
    unfolding fieldsByPage_snoc map_of_group_step
    using snoc by (auto simp: filter_page_empty)
qed

lemma drawn_group_length: "length (drawn_group img sd pages g) = length pages"
  by (simp add: drawn_group_def Let_def)

lemma drawn_group_nth:
  assumes "i < length pages"
  shows "drawn_group img sd pages g ! i =
           (if fst g = int i + 1
            then (pages ! i)\<lparr> pops := pops (pages ! i) @
                   map (drawField img sd (pwidth (pages ! i)) (pheight (pages ! i))) (snd g) \<rparr>
            else pages ! i)"
proof (cases "fst g = int i + 1")
  case True
  then have "nat (fst g - 1) = i" "fst g - 1 \<ge> 0" "fst g - 1 < int (length pages)"
    using assms by simp_all
  then show ?thesis using True assms by (simp add: drawn_group_def Let_def)
next
  case False
  then have "fst g - 1 \<ge> 0 \<Longrightarrow> nat (fst g - 1) \<noteq> i" by auto
  then show ?thesis using False assms by (simp add: drawn_group_def Let_def)
qed

lemma foldl_drawn_group_length:
  "length (foldl (drawn_group img sd) pages m) = length pages"
  by (induction m arbitrary: pages) (simp_all add: drawn_group_length)

lemma foldl_drawn_group_nth:
  assumes "distinct (map fst m)" and "i < length pages"
  shows "foldl (drawn_group img sd) pages m ! i =
           (case map_of m (int i + 1) of
              None \<Rightarrow> pages ! i
            | Some g \<Rightarrow> (pages ! i)\<lparr> pops := pops (pages ! i) @
                   map (drawField img sd (pwidth (pages ! i)) (pheight (pages ! i))) g \<rparr>)"
  using assms
proof (induction m arbitrary: pages)
  case Nil
  then show ?case by simp
next
  case (Cons g m)
  obtain k v where g: "g = (k, v)" by (cases g)
  from Cons.prems have d: "distinct (map fst m)" and nk: "k \<notin> fst ` set m"
    by (simp_all add: g)
  have len: "i < length (drawn_group img sd pages g)"
    using Cons.prems by (simp add: drawn_group_length)
  show ?case
  proof (cases "k = int i + 1")
    case True
    with nk have none: "map_of m (int i + 1) = None"
      by (simp add: map_of_eq_None_iff)
    show ?thesis
      using Cons.IH [OF d len] Cons.prems(2) True none
      by (simp add: g drawn_group_nth)
  next
    case False
    with Cons.prems(2) have pg: "drawn_group img sd pages g ! i = pages ! i"
      by (simp add: g drawn_group_nth)
    show ?thesis
      using Cons.IH [OF d len] False unfolding pg by (simp add: g)
  qed
qed

lemma drawn_fields_length: "length (drawn_fields img sd pages fs) = length pages"
  by (simp add: drawn_fields_def foldl_drawn_group_length)

lemma drawn_fields_nth:
  assumes "i < length pages"
  shows "drawn_fields img sd pages fs ! i =
           (pages ! i)\<lparr> pops := pops (pages ! i) @
              map (drawField img sd (pwidth (pages ! i)) (pheight (pages ! i)))
                (filter (\<lambda>f. fpage f = int i + 1) fs) \<rparr>"
proof -
  show ?thesis
    unfolding drawn_fields_def
    by (simp add: foldl_drawn_group_nth [OF fieldsByPage_distinct assms] fieldsByPage_map_of
        filter_page_empty)
qed

lemma drawn_fields_skip:
  "drawn_fields img sd pages (filter (\<lambda>f. 1 \<le> fpage f \<and> fpage f \<le> int (length pages)) fs)
     = drawn_fields img sd pages fs"
proof (rule nth_equalityI)
  show "length (drawn_fields img sd pages (filter (\<lambda>f. 1 \<le> fpage f \<and> fpage f \<le> int (length pages)) fs))
          = length (drawn_fields img sd pages fs)"
    by (simp add: drawn_fields_length)
next
  fix i
  assume "i < length (drawn_fields img sd pages (filter (\<lambda>f. 1 \<le> fpage f \<and> fpage f \<le> int (length pages)) fs))"
  then have i: "i < length pages" by (simp add: drawn_fields_length)
  have "filter (\<lambda>f. fpage f = int i + 1) (filter (\<lambda>f. 1 \<le> fpage f \<and> fpage f \<le> int (length pages)) fs)
          = filter (\<lambda>f. fpage f = int i + 1) fs"
    using i by (auto intro!: filter_cong)
  then show "drawn_fields img sd pages (filter (\<lambda>f. 1 \<le> fpage f \<and> fpage f \<le> int (length pages)) fs) ! i
          = drawn_fields img sd pages fs ! i"
    by (simp add: drawn_fields_nth [OF i])
qed


lemma draw_all_eq:
  "draw_all encodes page ds =
     (if list_all (accepts encodes) ds then Inr (page\<lparr> pops := pops page @ ds \<rparr>)
      else Inl EncodingError)"
  by (induction ds arbitrary: page) (simp_all add: draw_def)

lemma accepts_drawField:
  "accepts encodes (drawField img sd pw ph f) = field_encodable encodes img sd f"
  by (cases "ftype f") (simp_all add: drawField_def field_encodable_def)

lemma apply_group_eq:
  "apply_group encodes img sd pages g =
     (if 1 \<le> fst g \<and> fst g \<le> int (length pages)
         \<and> \<not> list_all (field_encodable encodes img sd) (snd g)
      then Inl EncodingError else Inr (drawn_group img sd pages g))"
  by (simp add: apply_group_def drawn_group_def Let_def draw_all_eq list_all_iff accepts_drawField)

lemma apply_groups_eq:
  "apply_groups encodes img sd pages gs =
     (if \<forall>g \<in> set gs. 1 \<le> fst g \<and> fst g \<le> int (length pages)
            \<longrightarrow> list_all (field_encodable encodes img sd) (snd g)
      then Inr (foldl (drawn_group img sd) pages gs) else Inl EncodingError)"
proof (induction gs arbitrary: pages)
  case Nil
  show ?case by simp
next
  case (Cons g gs)
  show ?case
    by (simp add: apply_group_eq Cons.IH drawn_group_length)
qed

lemma fieldsByPage_set:
  "(k, v) \<in> set (fieldsByPage fs) \<longleftrightarrow> k \<in> fpage ` set fs \<and> v = filter (\<lambda>f. fpage f = k) fs"
proof -
  have "(k, v) \<in> set (fieldsByPage fs) \<longleftrightarrow> map_of (fieldsByPage fs) k = Some v"
    using fieldsByPage_distinct [of fs] by simp
  then show ?thesis by (auto simp: fieldsByPage_map_of)
qed

lemma apply_fields_eq:
  "apply_fields encodes img sd pages fs =
     (if \<forall>f \<in> set fs. 1 \<le> fpage f \<and> fpage f \<le> int (length pages)
            \<longrightarrow> field_encodable encodes img sd f
      then Inr (drawn_fields img sd pages fs) else Inl EncodingError)"
proof -
  have "(\<forall>g \<in> set (fieldsByPage fs). 1 \<le> fst g \<and> fst g \<le> int (length pages)
            \<longrightarrow> list_all (field_encodable encodes img sd) (snd g))
        \<longleftrightarrow> (\<forall>f \<in> set fs. 1 \<le> fpage f \<and> fpage f \<le> int (length pages)
            \<longrightarrow> field_encodable encodes img sd f)"
    (is "?L \<longleftrightarrow> ?R")
  proof
    assume l: ?L
    show ?R
    proof (intro ballI impI)
      fix f assume f: "f \<in> set fs" and r: "1 \<le> fpage f \<and> fpage f \<le> int (length pages)"
      from f have "(fpage f, filter (\<lambda>h. fpage h = fpage f) fs) \<in> set (fieldsByPage fs)"
        by (simp add: fieldsByPage_set)
      with l r have "list_all (field_encodable encodes img sd) (filter (\<lambda>h. fpage h = fpage f) fs)"
        by fastforce
      with f show "field_encodable encodes img sd f" by (simp add: list_all_iff)
    qed
  next
    assume r: ?R
    show ?L
    proof (intro ballI impI)
      fix g assume g: "g \<in> set (fieldsByPage fs)" and rg: "1 \<le> fst g \<and> fst g \<le> int (length pages)"
      obtain k v where kv: "g = (k, v)" by (cases g)
      with g have v: "v = filter (\<lambda>f. fpage f = k) fs" by (simp add: fieldsByPage_set)
      show "list_all (field_encodable encodes img sd) (snd g)"
        using r rg by (auto simp: kv v list_all_iff)
    qed
  qed
  then show ?thesis by (simp add: apply_fields_def drawn_fields_def apply_groups_eq)
qed

lemma generatePDFWithPositionedFields_eq:
  assumes "pdf_content doc = Some pages"
  shows "generatePDFWithPositionedFields encodes decodes doc sd fs =
     (if \<forall>f \<in> set fs. 1 \<le> fpage f \<and> fpage f \<le> int (length pages)
            \<longrightarrow> field_encodable encodes (sd_signature sd \<noteq> [] \<and> decodes (sd_signature sd)) sd f
      then Inr \<lparr> blob_type = ''application/pdf'',
                 blob_pages = drawn_fields (sd_signature sd \<noteq> [] \<and> decodes (sd_signature sd)) sd pages fs \<rparr>
      else Inl EncodingError)"
  using assms by (simp add: generatePDFWithPositionedFields_def apply_fields_eq Let_def)

lemma generatePDFWithPositionedFields_InrD:
  assumes "generatePDFWithPositionedFields encodes decodes doc sd fs = Inr blob"
  shows "\<exists>pages. pdf_content doc = Some pages
           \<and> blob_pages blob = drawn_fields (sd_signature sd \<noteq> [] \<and> decodes (sd_signature sd)) sd pages fs"
proof (cases "pdf_content doc")
  case None
  with assms show ?thesis by (simp add: generatePDFWithPositionedFields_def)
next
  case (Some pages)
  with assms show ?thesis
    by (auto simp: generatePDFWithPositionedFields_eq [OF Some] split: if_splits)
qed

text \<open>
  C4. Fields are grouped by page number before drawing: the groups have distinct page
  numbers and the group of a page holds that page's fields in their order. A field whose
  page number is below 1 or above the page count is skipped silently: the compositor
  returns exactly what it returns without that field, so such a field raises nothing and
  draws nothing. When the drawing calls of the fields within the page range are accepted,
  the compositor returns the document with no page added and, on each page, the drawing
  calls of all the fields placed on it after what the page held before.
\<close>

theorem out_of_range_fields_skipped:
  "distinct (map fst (fieldsByPage fs))
   \<and> (\<forall>k. map_of (fieldsByPage fs) k =
         (if k \<in> fpage ` set fs then Some (filter (\<lambda>f. fpage f = k) fs) else None))
   \<and> (pdf_content doc = Some pages \<longrightarrow>
        generatePDFWithPositionedFields encodes decodes doc sd
            (filter (\<lambda>f. 1 \<le> fpage f \<and> fpage f \<le> int (length pages)) fs)
          = generatePDFWithPositionedFields encodes decodes doc sd fs
        \<and> ((\<forall>f \<in> set fs. 1 \<le> fpage f \<and> fpage f \<le> int (length pages) \<longrightarrow>
               field_encodable encodes (sd_signature sd \<noteq> [] \<and> decodes (sd_signature sd)) sd f) \<longrightarrow>
            (\<exists>pages'. generatePDFWithPositionedFields encodes decodes doc sd fs
                         = Inr \<lparr> blob_type = ''application/pdf'', blob_pages = pages' \<rparr>
               \<and> length pages' = length pages
               \<and> (\<forall>i < length pages.
                     pages' ! i =
                       (pages ! i)\<lparr> pops := pops (pages ! i) @
                          map (drawField (sd_signature sd \<noteq> [] \<and> decodes (sd_signature sd)) sd
                                 (pwidth (pages ! i)) (pheight (pages ! i)))
                            (filter (\<lambda>f. fpage f = int i + 1) fs) \<rparr>))))"
proof (intro conjI allI impI)
  show "distinct (map fst (fieldsByPage fs))" by (rule fieldsByPage_distinct)
next
  fix k
  show "map_of (fieldsByPage fs) k =
         (if k \<in> fpage ` set fs then Some (filter (\<lambda>f. fpage f = k) fs) else None)"
    by (rule fieldsByPage_map_of)
next
  assume c: "pdf_content doc = Some pages"
  show "generatePDFWithPositionedFields encodes decodes doc sd
            (filter (\<lambda>f. 1 \<le> fpage f \<and> fpage f \<le> int (length pages)) fs)
          = generatePDFWithPositionedFields encodes decodes doc sd fs"
    unfolding generatePDFWithPositionedFields_eq [OF c] by (simp add: drawn_fields_skip)
next
  assume c: "pdf_content doc = Some pages"
    and e: "\<forall>f \<in> set fs. 1 \<le> fpage f \<and> fpage f \<le> int (length pages) \<longrightarrow>
               field_encodable encodes (sd_signature sd \<noteq> [] \<and> decodes (sd_signature sd)) sd f"
  show "\<exists>pages'. generatePDFWithPositionedFields encodes decodes doc sd fs
                         = Inr \<lparr> blob_type = ''application/pdf'', blob_pages = pages' \<rparr>
               \<and> length pages' = length pages
               \<and> (\<forall>i < length pages.
                     pages' ! i =
                       (pages ! i)\<lparr> pops := pops (pages ! i) @
                          map (drawField (sd_signature sd \<noteq> [] \<and> decodes (sd_signature sd)) sd
                                 (pwidth (pages ! i)) (pheight (pages ! i)))
                            (filter (\<lambda>f. fpage f = int i + 1) fs) \<rparr>)"
    using e unfolding generatePDFWithPositionedFields_eq [OF c]
    by (simp add: drawn_fields_length drawn_fields_nth)
qed

lemma example_three_pages:
  "generatePDFWithPositionedFields ascii_text (\<lambda>_. False)
     \<lparr> fname = ''a.pdf'', fsize = 3, lastModified = 5, mime = ''application/pdf'',
       pdf_content = Some [\<lparr> pwidth = 612, pheight = 792, pops = [] \<rparr>,
                           \<lparr> pwidth = 612, pheight = 792, pops = [] \<rparr>,
                           \<lparr> pwidth = 612, pheight = 792, pops = [] \<rparr>] \<rparr>
     \<lparr> sd_name = ''Ann'', sd_email = [], sd_date = ''2024-01-01'', sd_signature = [] \<rparr>
     [\<lparr> fid = ''placed-date-41'', ftype = Date, fx = 300, fy = 400, fpage = 5,
        fwidth = 100, fheight = 30, fvalue = Some ''2024-01-01'' \<rparr>,
      \<lparr> fid = ''placed-name-42'', ftype = Name, fx = 100, fy = 100, fpage = 1,
        fwidth = 100, fheight = 30, fvalue = Some ''Ann'' \<rparr>]
   = Inr \<lparr> blob_type = ''application/pdf'',
           blob_pages = [\<lparr> pwidth = 612, pheight = 792,
                           pops = [DrawText ''Ann'' 102 673 12 Helvetica black] \<rparr>,
                         \<lparr> pwidth = 612, pheight = 792, pops = [] \<rparr>,
                         \<lparr> pwidth = 612, pheight = 792, pops = [] \<rparr>] \<rparr>"
  by (simp add: generatePDFWithPositionedFields_def apply_fields_def fieldsByPage_def
      group_step_def apply_group_def draw_def drawField_def pdfX_def pdfY_def ascii_text_def
      Let_def)

text \<open>A field on page 5 and a field on page 1 against a document of three pages.\<close>

theorem out_of_range_fields_skipped_witness:
  "pdf_content \<lparr> fname = ''a.pdf'', fsize = 3, lastModified = 5, mime = ''application/pdf'',
                 pdf_content = Some [\<lparr> pwidth = 612, pheight = 792, pops = [] \<rparr>,
                                     \<lparr> pwidth = 612, pheight = 792, pops = [] \<rparr>,
                                     \<lparr> pwidth = 612, pheight = 792, pops = [] \<rparr>] \<rparr>
     = Some [\<lparr> pwidth = 612, pheight = 792, pops = [] \<rparr>,
             \<lparr> pwidth = 612, pheight = 792, pops = [] \<rparr>,
             \<lparr> pwidth = 612, pheight = 792, pops = [] \<rparr>]
   \<and> field_encodable ascii_text False
        \<lparr> sd_name = ''Ann'', sd_email = [], sd_date = ''2024-01-01'', sd_signature = [] \<rparr>
        \<lparr> fid = ''placed-name-42'', ftype = Name, fx = 100, fy = 100, fpage = 1,
          fwidth = 100, fheight = 30, fvalue = Some ''Ann'' \<rparr>
   \<and> (0 :: nat) < length [\<lparr> pwidth = 612, pheight = 792, pops = [] \<rparr>,
                           \<lparr> pwidth = 612, pheight = 792, pops = [] \<rparr>,
                           \<lparr> pwidth = 612, pheight = 792, pops = [] \<rparr>]
   \<and> generatePDFWithPositionedFields ascii_text (\<lambda>_. False)
        \<lparr> fname = ''a.pdf'', fsize = 3, lastModified = 5, mime = ''application/pdf'',
          pdf_content = Some [\<lparr> pwidth = 612, pheight = 792, pops = [] \<rparr>,
                              \<lparr> pwidth = 612, pheight = 792, pops = [] \<rparr>,
                              \<lparr> pwidth = 612, pheight = 792, pops = [] \<rparr>] \<rparr>
        \<lparr> sd_name = ''Ann'', sd_email = [], sd_date = ''2024-01-01'', sd_signature = [] \<rparr>
        [\<lparr> fid = ''placed-date-41'', ftype = Date, fx = 300, fy = 400, fpage = 5,
           fwidth = 100, fheight = 30, fvalue = Some ''2024-01-01'' \<rparr>,
         \<lparr> fid = ''placed-name-42'', ftype = Name, fx = 100, fy = 100, fpage = 1,
           fwidth = 100, fheight = 30, fvalue = Some ''Ann'' \<rparr>]
      = Inr \<lparr> blob_type = ''application/pdf'',
              blob_pages = [\<lparr> pwidth = 612, pheight = 792,
                              pops = [DrawText ''Ann'' 102 673 12 Helvetica black] \<rparr>,
                            \<lparr> pwidth = 612, pheight = 792, pops = [] \<rparr>,
                            \<lparr> pwidth = 612, pheight = 792, pops = [] \<rparr>] \<rparr>"
  using out_of_range_fields_skipped
    [of "[\<lparr> fid = ''placed-date-41'', ftype = Date, fx = 300, fy = 400, fpage = 5,
            fwidth = 100, fheight = 30, fvalue = Some ''2024-01-01'' \<rparr>,
          \<lparr> fid = ''placed-name-42'', ftype = Name, fx = 100, fy = 100, fpage = 1,
            fwidth = 100, fheight = 30, fvalue = Some ''Ann'' \<rparr>]"
        "\<lparr> fname = ''a.pdf'', fsize = 3, lastModified = 5, mime = ''application/pdf'',
           pdf_content = Some [\<lparr> pwidth = 612, pheight = 792, pops = [] \<rparr>,
                               \<lparr> pwidth = 612, pheight = 792, pops = [] \<rparr>,
                               \<lparr> pwidth = 612, pheight = 792, pops = [] \<rparr>] \<rparr>"
        "[\<lparr> pwidth = 612, pheight = 792, pops = [] \<rparr>,
          \<lparr> pwidth = 612, pheight = 792, pops = [] \<rparr>,
          \<lparr> pwidth = 612, pheight = 792, pops = [] \<rparr>]"
        ascii_text "\<lambda>_. False"
        "\<lparr> sd_name = ''Ann'', sd_email = [], sd_date = ''2024-01-01'', sd_signature = [] \<rparr>"]
    example_three_pages
  by (simp add: field_encodable_def ascii_text_def)

lemma drawn_fields_size:
  "i < length pages \<Longrightarrow> pwidth (drawn_fields img sd pages fs ! i) = pwidth (pages ! i)
     \<and> pheight (drawn_fields img sd pages fs ! i) = pheight (pages ! i)"
  by (simp add: drawn_fields_nth)

text \<open>
  C1, as the code has it. In the document the compositor returns, every field whose page is
  within the page range has its content drawn on that page at
  \<open>outputX = (field.x / 600) * pageWidth\<close> and
  \<open>outputY = pageHeight - (field.y / 800) * pageHeight - 20\<close>: the signer's name, email or
  date as text at that point; for a signature the image a further 30 lower when there is a
  signature image, and otherwise the placeholder text at the point itself, with no extra
  offset. A name field at \<open>(100, 100)\<close> on a 612 by 792 page is drawn at \<open>(102, 673)\<close>.
\<close>

theorem field_drawn_at_transformed_position:
  assumes "generatePDFWithPositionedFields encodes decodes doc sd fs = Inr blob"
    and "f \<in> set fs" and "1 \<le> fpage f" and "fpage f \<le> int (length (blob_pages blob))"
  shows "(let page = blob_pages blob ! nat (fpage f - 1);
              outputX = (fx f / 600) * pwidth page;
              outputY = pheight page - (fy f / 800) * pheight page - 20
          in (case ftype f of
                Signature \<Rightarrow>
                  if sd_signature sd \<noteq> [] \<and> decodes (sd_signature sd)
                  then DrawImage outputX (outputY - 30)
                         (min (fwidth f * 1.5) 120) (min (fheight f * 1.5) 40)
                  else DrawText ''[Digital Signature]'' outputX outputY 10 Helvetica black
              | Name \<Rightarrow> DrawText (sd_name sd) outputX outputY 12 Helvetica black
              | Email \<Rightarrow> DrawText (sd_email sd) outputX outputY 10 Helvetica black
              | Date \<Rightarrow> DrawText (sd_date sd) outputX outputY 10 Helvetica black)
             \<in> set (pops page)
           \<and> (ftype f = Name \<and> fx f = 100 \<and> fy f = 100 \<and> pwidth page = 612 \<and> pheight page = 792
                \<longrightarrow> DrawText (sd_name sd) 102 673 12 Helvetica black \<in> set (pops page)))"
proof -
  define img where "img = (sd_signature sd \<noteq> [] \<and> decodes (sd_signature sd))"
  from generatePDFWithPositionedFields_InrD [OF assms(1)]
  obtain pages where b: "blob_pages blob = drawn_fields img sd pages fs"
    unfolding img_def by blast
  define i where "i = nat (fpage f - 1)"
  from assms(3,4) have i: "i < length pages" and fi: "fpage f = int i + 1"
    by (simp_all add: i_def b drawn_fields_length)
  define page where "page = blob_pages blob ! i"
  have sz: "pwidth page = pwidth (pages ! i)" "pheight page = pheight (pages ! i)"
    using drawn_fields_size [OF i] by (simp_all add: page_def b)
  from assms(2) fi have "f \<in> set (filter (\<lambda>g. fpage g = int i + 1) fs)" by simp
  then have mem: "drawField img sd (pwidth page) (pheight page) f \<in> set (pops page)"
    unfolding page_def b drawn_fields_nth [OF i] sz [unfolded page_def b] by simp
  have eq: "drawField img sd (pwidth page) (pheight page) f =
      (case ftype f of
         Signature \<Rightarrow>
           if img
           then DrawImage ((fx f / 600) * pwidth page)
                  (pheight page - (fy f / 800) * pheight page - 20 - 30)
                  (min (fwidth f * 1.5) 120) (min (fheight f * 1.5) 40)
           else DrawText ''[Digital Signature]'' ((fx f / 600) * pwidth page)
                  (pheight page - (fy f / 800) * pheight page - 20) 10 Helvetica black
       | Name \<Rightarrow> DrawText (sd_name sd) ((fx f / 600) * pwidth page)
                  (pheight page - (fy f / 800) * pheight page - 20) 12 Helvetica black
       | Email \<Rightarrow> DrawText (sd_email sd) ((fx f / 600) * pwidth page)
                  (pheight page - (fy f / 800) * pheight page - 20) 10 Helvetica black
       | Date \<Rightarrow> DrawText (sd_date sd) ((fx f / 600) * pwidth page)
                  (pheight page - (fy f / 800) * pheight page - 20) 10 Helvetica black)"
    by (cases "ftype f") (simp_all add: drawField_def pdfX_def pdfY_def)
  have inst: "ftype f = Name \<and> fx f = 100 \<and> fy f = 100 \<and> pwidth page = 612 \<and> pheight page = 792
                \<longrightarrow> DrawText (sd_name sd) 102 673 12 Helvetica black \<in> set (pops page)"
    using mem unfolding eq by auto
  from mem [unfolded eq] inst
  have both: "(case ftype f of
         Signature \<Rightarrow>
           if img
           then DrawImage ((fx f / 600) * pwidth page)
                  (pheight page - (fy f / 800) * pheight page - 20 - 30)
                  (min (fwidth f * 1.5) 120) (min (fheight f * 1.5) 40)
           else DrawText ''[Digital Signature]'' ((fx f / 600) * pwidth page)
                  (pheight page - (fy f / 800) * pheight page - 20) 10 Helvetica black
       | Name \<Rightarrow> DrawText (sd_name sd) ((fx f / 600) * pwidth page)
                  (pheight page - (fy f / 800) * pheight page - 20) 12 Helvetica black
       | Email \<Rightarrow> DrawText (sd_email sd) ((fx f / 600) * pwidth page)
                  (pheight page - (fy f / 800) * pheight page - 20) 10 Helvetica black
       | Date \<Rightarrow> DrawText (sd_date sd) ((fx f / 600) * pwidth page)
                  (pheight page - (fy f / 800) * pheight page - 20) 10 Helvetica black)
      \<in> set (pops page)
    \<and> (ftype f = Name \<and> fx f = 100 \<and> fy f = 100 \<and> pwidth page = 612 \<and> pheight page = 792
                \<longrightarrow> DrawText (sd_name sd) 102 673 12 Helvetica black \<in> set (pops page))"
    by (rule conjI)
  show ?thesis
    unfolding Let_def using both [unfolded page_def i_def img_def] .
qed

lemma example_one_page:
  "generatePDFWithPositionedFields ascii_text (\<lambda>_. False)
     \<lparr> fname = ''a.pdf'', fsize = 3, lastModified = 5, mime = ''application/pdf'',
       pdf_content = Some [\<lparr> pwidth = 612, pheight = 792, pops = [] \<rparr>] \<rparr>
     \<lparr> sd_name = ''Ann'', sd_email = [], sd_date = [], sd_signature = [] \<rparr>
     [\<lparr> fid = ''placed-name-42'', ftype = Name, fx = 100, fy = 100, fpage = 1,
        fwidth = 100, fheight = 30, fvalue = Some ''Ann'' \<rparr>]
   = Inr \<lparr> blob_type = ''application/pdf'',
           blob_pages = [\<lparr> pwidth = 612, pheight = 792,
                           pops = [DrawText ''Ann'' 102 673 12 Helvetica black] \<rparr>] \<rparr>"
  by (simp add: generatePDFWithPositionedFields_def apply_fields_def fieldsByPage_def
      group_step_def apply_group_def draw_def drawField_def pdfX_def pdfY_def ascii_text_def
      Let_def)

text \<open>The name field at \<open>(100, 100)\<close> on the only page, 612 by 792, of a document.\<close>

theorem field_drawn_at_transformed_position_witness:
  "generatePDFWithPositionedFields ascii_text (\<lambda>_. False)
     \<lparr> fname = ''a.pdf'', fsize = 3, lastModified = 5, mime = ''application/pdf'',
       pdf_content = Some [\<lparr> pwidth = 612, pheight = 792, pops = [] \<rparr>] \<rparr>
     \<lparr> sd_name = ''Ann'', sd_email = [], sd_date = [], sd_signature = [] \<rparr>
     [\<lparr> fid = ''placed-name-42'', ftype = Name, fx = 100, fy = 100, fpage = 1,
        fwidth = 100, fheight = 30, fvalue = Some ''Ann'' \<rparr>]
   = Inr \<lparr> blob_type = ''application/pdf'',
           blob_pages = [\<lparr> pwidth = 612, pheight = 792,
                           pops = [DrawText ''Ann'' 102 673 12 Helvetica black] \<rparr>] \<rparr>
   \<and> (1 :: int) \<le> 1
   \<and> (1 :: int) \<le> int (length [\<lparr> pwidth = 612, pheight = 792,
                                    pops = [DrawText ''Ann'' 102 673 12 Helvetica black] \<rparr>])
   \<and> DrawText ''Ann'' ((100 / 600) * 612) (792 - (100 / 800) * 792 - 20) 12 Helvetica black
        \<in> set [DrawText ''Ann'' 102 673 12 Helvetica black]"
  using field_drawn_at_transformed_position
    [of ascii_text "\<lambda>_. False"
        "\<lparr> fname = ''a.pdf'', fsize = 3, lastModified = 5, mime = ''application/pdf'',
           pdf_content = Some [\<lparr> pwidth = 612, pheight = 792, pops = [] \<rparr>] \<rparr>"
        "\<lparr> sd_name = ''Ann'', sd_email = [], sd_date = [], sd_signature = [] \<rparr>"
        "[\<lparr> fid = ''placed-name-42'', ftype = Name, fx = 100, fy = 100, fpage = 1,
            fwidth = 100, fheight = 30, fvalue = Some ''Ann'' \<rparr>]"
        "\<lparr> blob_type = ''application/pdf'',
           blob_pages = [\<lparr> pwidth = 612, pheight = 792,
                           pops = [DrawText ''Ann'' 102 673 12 Helvetica black] \<rparr>] \<rparr>"
        "\<lparr> fid = ''placed-name-42'', ftype = Name, fx = 100, fy = 100, fpage = 1,
           fwidth = 100, fheight = 30, fvalue = Some ''Ann'' \<rparr>"]
    example_one_page
  by simp

text \<open>
  C1 as stated fails for a signature field whose image could not be decoded: the
  placeholder text is drawn at \<open>y = 792 - 99 - 20 = 673\<close>, with no extra offset.
\<close>

theorem signature_placeholder_not_offset:
  "generatePDFWithPositionedFields ascii_text (\<lambda>_. False)
     \<lparr> fname = ''a.pdf'', fsize = 3, lastModified = 5, mime = ''application/pdf'',
       pdf_content = Some [\<lparr> pwidth = 612, pheight = 792, pops = [] \<rparr>] \<rparr>
     \<lparr> sd_name = ''Ann'', sd_email = ''a@b.c'', sd_date = ''2024-01-01'', sd_signature = ''Ann'' \<rparr>
     [\<lparr> fid = ''placed-signature-42'', ftype = Signature, fx = 100, fy = 100, fpage = 1,
        fwidth = 120, fheight = 40, fvalue = Some ''Ann'' \<rparr>]
   = Inr \<lparr> blob_type = ''application/pdf'',
           blob_pages = [\<lparr> pwidth = 612, pheight = 792,
                           pops = [DrawText ''[Digital Signature]'' 102 673 10 Helvetica black] \<rparr>] \<rparr>
   \<and> (673 :: real) = 792 - (100 / 800) * 792 - 20"
  by (simp add: generatePDFWithPositionedFields_def apply_fields_def fieldsByPage_def
      group_step_def apply_group_def draw_def drawField_def pdfX_def pdfY_def ascii_text_def
      Let_def)

section \<open>Properties of finalize and output assembly\<close>

text \<open>
  C7. When the document has no placed fields, or some placed field's value is missing or
  empty after trimming, finalize only shows a message: no download is offered, and the
  field store and everything else stay as they were.
\<close>

theorem finalize_aborts_on_unfilled:
  assumes "getDocumentFields (documentsWithFields u) doc = []
           \<or> (\<exists>f \<in> set (getDocumentFields (documentsWithFields u) doc). emptyField f)"
  shows "handleDownloadDocument encodes decodes stamp u doc =
           u\<lparr> alerts := alerts u @
                [if getDocumentFields (documentsWithFields u) doc = []
                 then ''Please add and fill some fields before downloading.''
                 else ''Please fill in all fields before downloading.''] \<rparr>
         \<and> downloads (handleDownloadDocument encodes decodes stamp u doc) = downloads u
         \<and> documentsWithFields (handleDownloadDocument encodes decodes stamp u doc) = documentsWithFields u"
proof (cases "getDocumentFields (documentsWithFields u) doc = []")
  case True
  then show ?thesis by (simp add: handleDownloadDocument_def)
next
  case False
  with assms have "filter emptyField (getDocumentFields (documentsWithFields u) doc) \<noteq> []"
    by (simp add: filter_empty_conv)
  with False show ?thesis by (simp add: handleDownloadDocument_def Let_def)
qed

text \<open>A document whose only field holds two blanks.\<close>

theorem finalize_aborts_on_unfilled_witness:
  "(\<exists>f \<in> set (getDocumentFields
        [getDocumentKey \<lparr> fname = ''a.pdf'', fsize = 3, lastModified = 5,
                           mime = ''application/pdf'', pdf_content = None \<rparr>
           \<mapsto> [\<lparr> fid = ''placed-name-42'', ftype = Name, fx = 100, fy = 100, fpage = 1,
                   fwidth = 100, fheight = 30, fvalue = Some ''  '' \<rparr>]]
        \<lparr> fname = ''a.pdf'', fsize = 3, lastModified = 5, mime = ''application/pdf'',
          pdf_content = None \<rparr>). emptyField f)
   \<and> alerts (handleDownloadDocument ascii_text (\<lambda>_. True) ''now''
        \<lparr> documentsWithFields =
            [getDocumentKey \<lparr> fname = ''a.pdf'', fsize = 3, lastModified = 5,
                               mime = ''application/pdf'', pdf_content = None \<rparr>
               \<mapsto> [\<lparr> fid = ''placed-name-42'', ftype = Name, fx = 100, fy = 100, fpage = 1,
                       fwidth = 100, fheight = 30, fvalue = Some ''  '' \<rparr>]],
          isGeneratingPDF = False, alerts = [], downloads = [] \<rparr>
        \<lparr> fname = ''a.pdf'', fsize = 3, lastModified = 5, mime = ''application/pdf'',
          pdf_content = None \<rparr>)
     = [''Please fill in all fields before downloading.'']"
  using finalize_aborts_on_unfilled
    [of "\<lparr> documentsWithFields =
            [getDocumentKey \<lparr> fname = ''a.pdf'', fsize = 3, lastModified = 5,
                               mime = ''application/pdf'', pdf_content = None \<rparr>
               \<mapsto> [\<lparr> fid = ''placed-name-42'', ftype = Name, fx = 100, fy = 100, fpage = 1,
                       fwidth = 100, fheight = 30, fvalue = Some ''  '' \<rparr>]],
          isGeneratingPDF = False, alerts = [], downloads = [] \<rparr>"
        "\<lparr> fname = ''a.pdf'', fsize = 3, lastModified = 5, mime = ''application/pdf'',
           pdf_content = None \<rparr>"
        ascii_text "\<lambda>_. True" "''now''"]
  by (simp add: getDocumentFields_def emptyField_def trim_def js_whitespace_def)

lemma generateSignaturePagePDF_eq:
  assumes "list_all (accepts encodes) (pops (signaturePage decodes stamp sd))"
  shows "generateSignaturePagePDF encodes decodes stamp doc sd =
           Inr \<lparr> blob_type = ''application/pdf'',
                 blob_pages = signaturePage decodes stamp sd #
                   (if mime doc = ''application/pdf''
                    then (case pdf_content doc of None \<Rightarrow> [] | Some originalPages \<Rightarrow> originalPages)
                    else []) \<rparr>"
  using assms
  by (cases "sd_signature sd = []"; cases "decodes (sd_signature sd)"; cases "pdf_content doc")
    (simp_all add: generateSignaturePagePDF_def signaturePage_def Let_def draw_all_eq draw_def)

lemma generateSignaturePagePDF_type:
  "generateSignaturePagePDF encodes decodes stamp doc sd = Inr blob
     \<Longrightarrow> blob_type blob = ''application/pdf''"
  by (auto simp: generateSignaturePagePDF_def Let_def split: sum.splits if_splits option.splits)

lemma generateSignedPDF_type:
  "generateSignedPDF encodes decodes stamp doc sd flds = Inr blob \<Longrightarrow> blob_type blob = ''application/pdf''"
  by (auto simp: generateSignedPDF_def generatePDFWithPositionedFields_def Let_def
      dest: generateSignaturePagePDF_type split: if_splits option.splits sum.splits)

lemma originalName_stem:
  "CHR ''.'' \<notin> set stem \<Longrightarrow> originalName (stem @ CHR ''.'' # ext) = stem"
  by (induction stem) (auto simp: originalName_def)

lemma originalName_no_dot:
  "CHR ''.'' \<notin> set name \<Longrightarrow> originalName name = name"
  by (induction name) (auto simp: originalName_def)

lemma handleDownloadDocument_cases:
  "handleDownloadDocument encodes decodes stamp u doc = u\<lparr> alerts := alerts u @ [''Please add and fill some fields before downloading.''] \<rparr>
   \<or> handleDownloadDocument encodes decodes stamp u doc = u\<lparr> alerts := alerts u @ [''Please fill in all fields before downloading.''] \<rparr>
   \<or> handleDownloadDocument encodes decodes stamp u doc =
        u\<lparr> alerts := alerts u @ [''Error generating signed document. Please try again.''],
           isGeneratingPDF := False \<rparr>
   \<or> (\<exists>blob. blob_type blob = ''application/pdf'' \<and>
         handleDownloadDocument encodes decodes stamp u doc =
           u\<lparr> downloads := downloads u @ [(blob, originalName (fname doc) @ ''_signed.pdf'')],
              isGeneratingPDF := False \<rparr>)"
  by (auto simp: handleDownloadDocument_def Let_def dest: generateSignedPDF_type split: sum.splits)

lemma example_summary_encodable:
  "list_all (accepts ascii_text)
     (pops (signaturePage (\<lambda>_. True) ''now''
        \<lparr> sd_name = ''Ann'', sd_email = [], sd_date = [], sd_signature = [] \<rparr>))"
  by (simp add: signaturePage_def ascii_text_def)

lemma example_finalize_text_file:
  "handleDownloadDocument ascii_text (\<lambda>_. True) ''now''
      \<lparr> documentsWithFields =
          [getDocumentKey \<lparr> fname = name, fsize = 3, lastModified = 5,
                             mime = ''text/plain'', pdf_content = None \<rparr>
             \<mapsto> [\<lparr> fid = ''placed-name-42'', ftype = Name, fx = 100, fy = 100, fpage = 1,
                     fwidth = 100, fheight = 30, fvalue = Some ''Ann'' \<rparr>]],
        isGeneratingPDF = False, alerts = [], downloads = [] \<rparr>
      \<lparr> fname = name, fsize = 3, lastModified = 5, mime = ''text/plain'',
        pdf_content = None \<rparr>
   = \<lparr> documentsWithFields =
          [getDocumentKey \<lparr> fname = name, fsize = 3, lastModified = 5,
                             mime = ''text/plain'', pdf_content = None \<rparr>
             \<mapsto> [\<lparr> fid = ''placed-name-42'', ftype = Name, fx = 100, fy = 100, fpage = 1,
                     fwidth = 100, fheight = 30, fvalue = Some ''Ann'' \<rparr>]],
        isGeneratingPDF = False, alerts = [],
        downloads =
          [(\<lparr> blob_type = ''application/pdf'',
              blob_pages = [signaturePage (\<lambda>_. True) ''now''
                              \<lparr> sd_name = ''Ann'', sd_email = [], sd_date = [], sd_signature = [] \<rparr>] \<rparr>,
            originalName name @ ''_signed.pdf'')] \<rparr>"
  by (simp add: handleDownloadDocument_def getDocumentFields_def emptyField_def trim_def
      js_whitespace_def generateSignedPDF_def findValue_def Let_def
      generateSignaturePagePDF_eq [OF example_summary_encodable])

text \<open>
  C9, as the code has it. For a file whose name has at most one dot, a finalize that offers
  a download offers exactly one, a PDF blob, under the name \<^verbatim>\<open><original-stem>_signed.pdf\<close>,
  where the stem is the name without its extension (the whole name when it has none); the
  extension of the offered name is always \<^verbatim>\<open>pdf\<close>, and no message is shown.
\<close>

theorem finalize_filename:
  assumes "downloads (handleDownloadDocument encodes decodes stamp u doc) \<noteq> downloads u"
    and "fname doc = stem \<or> fname doc = stem @ ''.'' @ ext"
    and "CHR ''.'' \<notin> set stem" and "CHR ''.'' \<notin> set ext"
  shows "\<exists>blob. downloads (handleDownloadDocument encodes decodes stamp u doc)
                  = downloads u @ [(blob, stem @ ''_signed.pdf'')]
               \<and> blob_type blob = ''application/pdf''
               \<and> alerts (handleDownloadDocument encodes decodes stamp u doc) = alerts u"
proof -
  from assms(2,3) have "originalName (fname doc) = stem"
    by (auto simp: originalName_stem originalName_no_dot)
  then show ?thesis
    using assms(1) handleDownloadDocument_cases [of encodes decodes stamp u doc] by auto
qed

text \<open>A text file with one filled name field, named with an extension and without one.\<close>

theorem finalize_filename_witness:
  "downloads (handleDownloadDocument ascii_text (\<lambda>_. True) ''now''
      \<lparr> documentsWithFields =
          [getDocumentKey \<lparr> fname = ''notes.txt'', fsize = 3, lastModified = 5,
                             mime = ''text/plain'', pdf_content = None \<rparr>
             \<mapsto> [\<lparr> fid = ''placed-name-42'', ftype = Name, fx = 100, fy = 100, fpage = 1,
                     fwidth = 100, fheight = 30, fvalue = Some ''Ann'' \<rparr>]],
        isGeneratingPDF = False, alerts = [], downloads = [] \<rparr>
      \<lparr> fname = ''notes.txt'', fsize = 3, lastModified = 5, mime = ''text/plain'',
        pdf_content = None \<rparr>) \<noteq> []
   \<and> ''notes.txt'' = ''notes'' @ ''.'' @ ''txt''
   \<and> CHR ''.'' \<notin> set ''notes'' \<and> CHR ''.'' \<notin> set ''txt''
   \<and> downloads (handleDownloadDocument ascii_text (\<lambda>_. True) ''now''
      \<lparr> documentsWithFields =
          [getDocumentKey \<lparr> fname = ''README'', fsize = 3, lastModified = 5,
                             mime = ''text/plain'', pdf_content = None \<rparr>
             \<mapsto> [\<lparr> fid = ''placed-name-42'', ftype = Name, fx = 100, fy = 100, fpage = 1,
                     fwidth = 100, fheight = 30, fvalue = Some ''Ann'' \<rparr>]],
        isGeneratingPDF = False, alerts = [], downloads = [] \<rparr>
      \<lparr> fname = ''README'', fsize = 3, lastModified = 5, mime = ''text/plain'',
        pdf_content = None \<rparr>) \<noteq> []
   \<and> CHR ''.'' \<notin> set ''README''"
  using finalize_filename
    [of ascii_text "\<lambda>_. True" "''now''"
        "\<lparr> documentsWithFields =
          [getDocumentKey \<lparr> fname = ''notes.txt'', fsize = 3, lastModified = 5,
                             mime = ''text/plain'', pdf_content = None \<rparr>
             \<mapsto> [\<lparr> fid = ''placed-name-42'', ftype = Name, fx = 100, fy = 100, fpage = 1,
                     fwidth = 100, fheight = 30, fvalue = Some ''Ann'' \<rparr>]],
        isGeneratingPDF = False, alerts = [], downloads = [] \<rparr>"
        "\<lparr> fname = ''notes.txt'', fsize = 3, lastModified = 5, mime = ''text/plain'',
           pdf_content = None \<rparr>"
        "''notes''" "''txt''"]
    finalize_filename
    [of ascii_text "\<lambda>_. True" "''now''"
        "\<lparr> documentsWithFields =
          [getDocumentKey \<lparr> fname = ''README'', fsize = 3, lastModified = 5,
                             mime = ''text/plain'', pdf_content = None \<rparr>
             \<mapsto> [\<lparr> fid = ''placed-name-42'', ftype = Name, fx = 100, fy = 100, fpage = 1,
                     fwidth = 100, fheight = 30, fvalue = Some ''Ann'' \<rparr>]],
        isGeneratingPDF = False, alerts = [], downloads = [] \<rparr>"
        "\<lparr> fname = ''README'', fsize = 3, lastModified = 5, mime = ''text/plain'',
           pdf_content = None \<rparr>"
        "''README''" "[]"]
  by (simp add: example_finalize_text_file)

text \<open>
  C9 as stated fails for a file that is not a PDF: \<^verbatim>\<open>notes.txt\<close> is offered as
  \<^verbatim>\<open>notes_signed.pdf\<close>, not under its own extension.
\<close>

theorem finalize_filename_not_original_extension:
  "downloads (handleDownloadDocument ascii_text (\<lambda>_. True) ''now''
      \<lparr> documentsWithFields =
          [getDocumentKey \<lparr> fname = ''notes.txt'', fsize = 3, lastModified = 5,
                             mime = ''text/plain'', pdf_content = None \<rparr>
             \<mapsto> [\<lparr> fid = ''placed-name-42'', ftype = Name, fx = 100, fy = 100, fpage = 1,
                     fwidth = 100, fheight = 30, fvalue = Some ''Ann'' \<rparr>]],
        isGeneratingPDF = False, alerts = [], downloads = [] \<rparr>
      \<lparr> fname = ''notes.txt'', fsize = 3, lastModified = 5, mime = ''text/plain'',
        pdf_content = None \<rparr>)
   = [(\<lparr> blob_type = ''application/pdf'',
         blob_pages = [signaturePage (\<lambda>_. True) ''now''
                         \<lparr> sd_name = ''Ann'', sd_email = [], sd_date = [], sd_signature = [] \<rparr>] \<rparr>,
       ''notes_signed.pdf'')]
   \<and> ''notes_signed.pdf'' \<noteq> ''notes_signed.txt''"
  by (simp add: example_finalize_text_file originalName_def)

text \<open>
  C6 as stated fails at finalize: with no placed fields the handler shows a message and
  offers no download, so no summary page is produced.
\<close>

theorem finalize_without_fields_aborts:
  "downloads (handleDownloadDocument ascii_text (\<lambda>_. True) ''now''
      \<lparr> documentsWithFields = Map.empty, isGeneratingPDF = False, alerts = [], downloads = [] \<rparr>
      \<lparr> fname = ''a.pdf'', fsize = 3, lastModified = 5, mime = ''application/pdf'',
        pdf_content = Some [\<lparr> pwidth = 612, pheight = 792, pops = [] \<rparr>] \<rparr>) = []
   \<and> alerts (handleDownloadDocument ascii_text (\<lambda>_. True) ''now''
      \<lparr> documentsWithFields = Map.empty, isGeneratingPDF = False, alerts = [], downloads = [] \<rparr>
      \<lparr> fname = ''a.pdf'', fsize = 3, lastModified = 5, mime = ''application/pdf'',
        pdf_content = Some [\<lparr> pwidth = 612, pheight = 792, pops = [] \<rparr>] \<rparr>)
     = [''Please add and fill some fields before downloading.'']"
  by (simp add: handleDownloadDocument_def getDocumentFields_def)

text \<open>
  C6, as the code has it. When the texts of the summary page can be encoded, the fallback
  summary output is a synthesized 612 by 792 first page whose drawn texts include
  \<^verbatim>\<open>Name: ...\<close>, \<^verbatim>\<open>Email: ...\<close> and \<^verbatim>\<open>Date: ...\<close>. Finalize offers it, alone, for a
  source that is not a PDF, all placed fields being filled; \<^verbatim>\<open>generateSignedPDF\<close> returns
  it for zero positioned fields or a source that is not a PDF, prepended to the original
  pages when the source is a PDF that loads, and alone when merging fails or the source is
  not a PDF.
\<close>

theorem fallback_summary_page:
  assumes "list_all (accepts encodes) (pops (signaturePage decodes stamp sd))"
  shows "(flds = [] \<or> mime doc \<noteq> ''application/pdf'' \<longrightarrow>
            generateSignedPDF encodes decodes stamp doc sd flds =
              Inr \<lparr> blob_type = ''application/pdf'',
                    blob_pages = signaturePage decodes stamp sd #
                      (if mime doc = ''application/pdf''
                       then (case pdf_content doc of None \<Rightarrow> [] | Some originalPages \<Rightarrow> originalPages)
                       else []) \<rparr>)
         \<and> (getDocumentFields (documentsWithFields u) doc \<noteq> []
              \<and> filter emptyField (getDocumentFields (documentsWithFields u) doc) = []
              \<and> mime doc \<noteq> ''application/pdf''
              \<and> sd = \<lparr> sd_name = findValue Name (getDocumentFields (documentsWithFields u) doc),
                        sd_email = findValue Email (getDocumentFields (documentsWithFields u) doc),
                        sd_date = findValue Date (getDocumentFields (documentsWithFields u) doc),
                        sd_signature = findValue Signature (getDocumentFields (documentsWithFields u) doc) \<rparr>
              \<longrightarrow>
            handleDownloadDocument encodes decodes stamp u doc =
              u\<lparr> downloads := downloads u @
                   [(\<lparr> blob_type = ''application/pdf'',
                       blob_pages = [signaturePage decodes stamp sd] \<rparr>,
                     originalName (fname doc) @ ''_signed.pdf'')],
                 isGeneratingPDF := False \<rparr>)
         \<and> pwidth (signaturePage decodes stamp sd) = 612
         \<and> pheight (signaturePage decodes stamp sd) = 792
         \<and> DrawText (''Name: '' @ sd_name sd) 50 620 12 Helvetica black
              \<in> set (pops (signaturePage decodes stamp sd))
         \<and> DrawText (''Email: '' @ sd_email sd) 50 590 12 Helvetica black
              \<in> set (pops (signaturePage decodes stamp sd))
         \<and> DrawText (''Date: '' @ sd_date sd) 50 560 12 Helvetica black
              \<in> set (pops (signaturePage decodes stamp sd))"
proof -
  have gen: "generateSignedPDF encodes decodes stamp doc sd fl =
              Inr \<lparr> blob_type = ''application/pdf'',
                    blob_pages = signaturePage decodes stamp sd #
                      (if mime doc = ''application/pdf''
                       then (case pdf_content doc of None \<Rightarrow> [] | Some originalPages \<Rightarrow> originalPages)
                       else []) \<rparr>"
    if "fl = [] \<or> mime doc \<noteq> ''application/pdf''" for fl
    using that by (auto simp: generateSignedPDF_def generateSignaturePagePDF_eq [OF assms])
  have fin: "handleDownloadDocument encodes decodes stamp u doc =
              u\<lparr> downloads := downloads u @
                   [(\<lparr> blob_type = ''application/pdf'',
                       blob_pages = [signaturePage decodes stamp sd] \<rparr>,
                     originalName (fname doc) @ ''_signed.pdf'')],
                 isGeneratingPDF := False \<rparr>"
    if "getDocumentFields (documentsWithFields u) doc \<noteq> []"
      and "filter emptyField (getDocumentFields (documentsWithFields u) doc) = []"
      and "mime doc \<noteq> ''application/pdf''"
      and "sd = \<lparr> sd_name = findValue Name (getDocumentFields (documentsWithFields u) doc),
                        sd_email = findValue Email (getDocumentFields (documentsWithFields u) doc),
                        sd_date = findValue Date (getDocumentFields (documentsWithFields u) doc),
                        sd_signature = findValue Signature (getDocumentFields (documentsWithFields u) doc) \<rparr>"
  proof -
    from that(3) have g: "generateSignedPDF encodes decodes stamp doc sd
                (getDocumentFields (documentsWithFields u) doc) =
              Inr \<lparr> blob_type = ''application/pdf'', blob_pages = [signaturePage decodes stamp sd] \<rparr>"
      by (simp add: gen)
    show ?thesis
      using that(1,2) g unfolding that(4) by (simp add: handleDownloadDocument_def Let_def)
  qed
  show ?thesis
    using gen [of flds] fin by (simp add: signaturePage_def)
qed

text \<open>A text file with one filled name field.\<close>

theorem fallback_summary_page_witness:
  "list_all (accepts ascii_text)
     (pops (signaturePage (\<lambda>_. True) ''now''
        \<lparr> sd_name = ''Ann'', sd_email = [], sd_date = [], sd_signature = [] \<rparr>))
   \<and> ([] = ([] :: PlacedField list) \<or> ''text/plain'' \<noteq> ''application/pdf'')
   \<and> generateSignedPDF ascii_text (\<lambda>_. True) ''now''
        \<lparr> fname = ''notes.txt'', fsize = 3, lastModified = 5, mime = ''text/plain'',
          pdf_content = None \<rparr>
        \<lparr> sd_name = ''Ann'', sd_email = [], sd_date = [], sd_signature = [] \<rparr> []
      = Inr \<lparr> blob_type = ''application/pdf'',
              blob_pages = [signaturePage (\<lambda>_. True) ''now''
                 \<lparr> sd_name = ''Ann'', sd_email = [], sd_date = [], sd_signature = [] \<rparr>] \<rparr>
   \<and> getDocumentFields
        [getDocumentKey \<lparr> fname = ''notes.txt'', fsize = 3, lastModified = 5,
                           mime = ''text/plain'', pdf_content = None \<rparr>
           \<mapsto> [\<lparr> fid = ''placed-name-42'', ftype = Name, fx = 100, fy = 100, fpage = 1,
                   fwidth = 100, fheight = 30, fvalue = Some ''Ann'' \<rparr>]]
        \<lparr> fname = ''notes.txt'', fsize = 3, lastModified = 5, mime = ''text/plain'',
          pdf_content = None \<rparr>
      = [\<lparr> fid = ''placed-name-42'', ftype = Name, fx = 100, fy = 100, fpage = 1,
           fwidth = 100, fheight = 30, fvalue = Some ''Ann'' \<rparr>]
   \<and> filter emptyField
        [\<lparr> fid = ''placed-name-42'', ftype = Name, fx = 100, fy = 100, fpage = 1,
           fwidth = 100, fheight = 30, fvalue = Some ''Ann'' \<rparr>] = []
   \<and> downloads (handleDownloadDocument ascii_text (\<lambda>_. True) ''now''
        \<lparr> documentsWithFields =
            [getDocumentKey \<lparr> fname = ''notes.txt'', fsize = 3, lastModified = 5,
                               mime = ''text/plain'', pdf_content = None \<rparr>
               \<mapsto> [\<lparr> fid = ''placed-name-42'', ftype = Name, fx = 100, fy = 100, fpage = 1,
                       fwidth = 100, fheight = 30, fvalue = Some ''Ann'' \<rparr>]],
          isGeneratingPDF = False, alerts = [], downloads = [] \<rparr>
        \<lparr> fname = ''notes.txt'', fsize = 3, lastModified = 5, mime = ''text/plain'',
          pdf_content = None \<rparr>)
      = [(\<lparr> blob_type = ''application/pdf'',
            blob_pages = [signaturePage (\<lambda>_. True) ''now''
                 \<lparr> sd_name = ''Ann'', sd_email = [], sd_date = [], sd_signature = [] \<rparr>] \<rparr>,
          ''notes_signed.pdf'')]"
  using fallback_summary_page
    [of ascii_text "\<lambda>_. True" "''now''"
        "\<lparr> sd_name = ''Ann'', sd_email = [], sd_date = [], sd_signature = [] \<rparr>"
        "[]"
        "\<lparr> fname = ''notes.txt'', fsize = 3, lastModified = 5, mime = ''text/plain'',
           pdf_content = None \<rparr>"
        "\<lparr> documentsWithFields =
            [getDocumentKey \<lparr> fname = ''notes.txt'', fsize = 3, lastModified = 5,
                               mime = ''text/plain'', pdf_content = None \<rparr>
               \<mapsto> [\<lparr> fid = ''placed-name-42'', ftype = Name, fx = 100, fy = 100, fpage = 1,
                       fwidth = 100, fheight = 30, fvalue = Some ''Ann'' \<rparr>]],
          isGeneratingPDF = False, alerts = [], downloads = [] \<rparr>"]
    example_summary_encodable
  by (simp add: getDocumentFields_def emptyField_def trim_def js_whitespace_def findValue_def
      originalName_def)

lemma dragEndField_unfilled: "dragEndField ev rect now cur = Some f \<Longrightarrow> fvalue f = None"
  by (auto dest!: dragEndField_SomeD)

lemma dropField_unfilled: "dropField ev now cur = Some f \<Longrightarrow> fvalue f = None"
  by (auto dest!: dropField_SomeD)

lemma handleFieldPlaced_unfilled:
  "unfilled_state ps \<Longrightarrow> fvalue f = None \<Longrightarrow> unfilled_state (handleFieldPlaced doc ps f)"
  by (auto simp: unfilled_state_def unfilled_store_def handleFieldPlaced_def Let_def
      updateDocumentFields_def split: if_splits)

lemma handleFieldRemoved_unfilled:
  "unfilled_state ps \<Longrightarrow> unfilled_state (handleFieldRemoved doc ps i)"
  by (auto simp: unfilled_state_def unfilled_store_def handleFieldRemoved_def Let_def
      updateDocumentFields_def split: if_splits)

lemma gesture_step_unfilled:
  "unfilled_state ps \<Longrightarrow> unfilled_state (gesture_step doc ps g)"
proof (cases g)
  case (DragStart i d t)
  assume "unfilled_state ps"
  then show ?thesis by (simp add: DragStart handleDragStart_def unfilled_state_def)
next
  case (DragEnd ev rect now)
  assume u: "unfilled_state ps"
  then have u1: "unfilled_state ((fst ps)\<lparr> activeField := None \<rparr>, snd ps)"
    by (simp add: unfilled_state_def)
  show ?thesis
    using u1 by (auto simp: DragEnd handleDragEnd_def Let_def handleFieldPlaced_unfilled
        dragEndField_unfilled split: option.splits)
next
  case (NativeDrop ev now)
  assume "unfilled_state ps"
  then show ?thesis
    by (auto simp: NativeDrop handleDrop_def handleFieldPlaced_unfilled dropField_unfilled
        split: option.splits)
next
  case (RemoveClick i)
  assume "unfilled_state ps"
  then show ?thesis by (simp add: RemoveClick handleFieldRemoved_unfilled)
qed

lemma foldl_gesture_step_unfilled:
  "unfilled_state ps \<Longrightarrow> unfilled_state (foldl (gesture_step doc) ps gs)"
  by (induction gs arbitrary: ps) (simp_all add: gesture_step_unfilled)

lemma unfilled_store_get:
  assumes "unfilled_store s" and "f \<in> set (getDocumentFields s doc)"
  shows "fvalue f = None"
proof (cases "s (getDocumentKey doc)")
  case None
  with assms(2) show ?thesis by (simp add: getDocumentFields_def)
next
  case (Some flds)
  with assms(2) have "f \<in> set flds" by (simp add: getDocumentFields_def)
  with assms(1) Some show ?thesis unfolding unfilled_store_def by blast
qed

lemma openPreview_unfilled: "unfilled_store s \<Longrightarrow> unfilled_state (openPreview s doc)"
  by (simp add: openPreview_def unfilled_state_def unfilled_store_get)

lemma upload_step_unfilled: "unfilled_store s \<Longrightarrow> unfilled_store (upload_step s a)"
proof (cases a)
  case (Preview doc gs)
  assume "unfilled_store s"
  then have "unfilled_state (placement_session s doc gs)"
    unfolding placement_session_def by (intro foldl_gesture_step_unfilled openPreview_unfilled)
  then show ?thesis by (simp add: Preview unfilled_state_def)
next
  case (RemoveFile doc)
  assume "unfilled_store s"
  then show ?thesis
    by (auto simp: RemoveFile removeDocumentFields_def unfilled_store_def split: if_splits)
qed

lemma foldl_upload_step_unfilled:
  "unfilled_store s \<Longrightarrow> unfilled_store (foldl upload_step s acts)"
  by (induction acts arbitrary: s) (simp_all add: upload_step_unfilled)

lemma upload_session_unfilled: "unfilled_store (upload_session acts)"
  unfolding upload_session_def
  by (rule foldl_upload_step_unfilled) (simp add: unfilled_store_def)

lemma upload_session_fields_unfilled:
  "f \<in> set (getDocumentFields (upload_session acts) doc) \<Longrightarrow> fvalue f = None"
  using upload_session_unfilled [of acts] by (rule unfilled_store_get)

text \<open>
  C10. A field record built by either drop path has no value, and no placement action sets
  one: in a store produced by placement sessions and file removals only, every stored field
  is without a value and counts as unfilled, so finalize on a document with a non-empty
  field list only shows the message asking to fill in all fields.
\<close>

theorem placed_fields_never_filled:
  "(dragEndField ev rect now cur = Some f \<longrightarrow> fvalue f = None)
   \<and> (dropField dv now' cur' = Some f' \<longrightarrow> fvalue f' = None)
   \<and> (\<forall>g \<in> set (getDocumentFields (upload_session acts) doc). fvalue g = None \<and> emptyField g)
   \<and> (getDocumentFields (upload_session acts) doc \<noteq> [] \<longrightarrow>
        handleDownloadDocument encodes decodes stamp
          \<lparr> documentsWithFields = upload_session acts, isGeneratingPDF = gen, alerts = a,
            downloads = d \<rparr> doc
        = \<lparr> documentsWithFields = upload_session acts, isGeneratingPDF = gen,
            alerts = a @ [''Please fill in all fields before downloading.''], downloads = d \<rparr>)"
proof -
  have all: "\<forall>g \<in> set (getDocumentFields (upload_session acts) doc). fvalue g = None \<and> emptyField g"
    by (simp add: upload_session_fields_unfilled emptyField_def)
  have "filter emptyField (getDocumentFields (upload_session acts) doc)
          = getDocumentFields (upload_session acts) doc"
    using all by (simp add: filter_id_conv)
  then have "getDocumentFields (upload_session acts) doc \<noteq> [] \<longrightarrow>
        handleDownloadDocument encodes decodes stamp
          \<lparr> documentsWithFields = upload_session acts, isGeneratingPDF = gen, alerts = a,
            downloads = d \<rparr> doc
        = \<lparr> documentsWithFields = upload_session acts, isGeneratingPDF = gen,
            alerts = a @ [''Please fill in all fields before downloading.''], downloads = d \<rparr>"
    by (simp add: handleDownloadDocument_def Let_def)
  with all show ?thesis by (simp add: dragEndField_unfilled dropField_unfilled)
qed

text \<open>One name field placed by a gesture, then finalize.\<close>

theorem placed_fields_never_filled_witness:
  "dragEndField \<lparr> over_id = Some ''document-drop-zone'', active_type = Some ''field'',
                   active_fieldType = Name, delta = Some (10, 20) \<rparr> True 42 1
     = Some \<lparr> fid = ''placed-name-42'', ftype = Name, fx = 60, fy = 105, fpage = 1,
              fwidth = 100, fheight = 30, fvalue = None \<rparr>
   \<and> dropField \<lparr> clientX = 300, clientY = 400, rect_left = 100, rect_top = 200,
                 activeElement = False, dataTransfer_fieldType = Some Name \<rparr> 43 1
     = Some \<lparr> fid = ''placed-name-43'', ftype = Name, fx = 150, fy = 185, fpage = 1,
              fwidth = 100, fheight = 30, fvalue = None \<rparr>
   \<and> getDocumentFields
       (upload_session
          [Preview \<lparr> fname = ''a.pdf'', fsize = 3, lastModified = 5, mime = ''application/pdf'',
                     pdf_content = None \<rparr>
             [DragEnd \<lparr> over_id = Some ''document-drop-zone'', active_type = Some ''field'',
                        active_fieldType = Name, delta = Some (10, 20) \<rparr> True 42]])
       \<lparr> fname = ''a.pdf'', fsize = 3, lastModified = 5, mime = ''application/pdf'',
         pdf_content = None \<rparr>
     = [\<lparr> fid = ''placed-name-42'', ftype = Name, fx = 60, fy = 105, fpage = 1,
          fwidth = 100, fheight = 30, fvalue = None \<rparr>]
   \<and> alerts (handleDownloadDocument ascii_text (\<lambda>_. True) ''now''
        \<lparr> documentsWithFields =
            upload_session
              [Preview \<lparr> fname = ''a.pdf'', fsize = 3, lastModified = 5,
                         mime = ''application/pdf'', pdf_content = None \<rparr>
                 [DragEnd \<lparr> over_id = Some ''document-drop-zone'', active_type = Some ''field'',
                            active_fieldType = Name, delta = Some (10, 20) \<rparr> True 42]],
          isGeneratingPDF = False, alerts = [], downloads = [] \<rparr>
        \<lparr> fname = ''a.pdf'', fsize = 3, lastModified = 5, mime = ''application/pdf'',
          pdf_content = None \<rparr>)
     = [''Please fill in all fields before downloading.'']"
  using placed_fields_never_filled
    [of "\<lparr> over_id = Some ''document-drop-zone'', active_type = Some ''field'',
           active_fieldType = Name, delta = Some (10, 20) \<rparr>" True 42 1
        "\<lparr> fid = ''placed-name-42'', ftype = Name, fx = 60, fy = 105, fpage = 1,
           fwidth = 100, fheight = 30, fvalue = None \<rparr>"
        "\<lparr> clientX = 300, clientY = 400, rect_left = 100, rect_top = 200,
           activeElement = False, dataTransfer_fieldType = Some Name \<rparr>" 43 1
        "\<lparr> fid = ''placed-name-43'', ftype = Name, fx = 150, fy = 185, fpage = 1,
           fwidth = 100, fheight = 30, fvalue = None \<rparr>"
        "[Preview \<lparr> fname = ''a.pdf'', fsize = 3, lastModified = 5, mime = ''application/pdf'',
                     pdf_content = None \<rparr>
             [DragEnd \<lparr> over_id = Some ''document-drop-zone'', active_type = Some ''field'',
                        active_fieldType = Name, delta = Some (10, 20) \<rparr> True 42]]"
        "\<lparr> fname = ''a.pdf'', fsize = 3, lastModified = 5, mime = ''application/pdf'',
           pdf_content = None \<rparr>"
        ascii_text "\<lambda>_. True" "''now''" False "[]" "[]"]
  by (simp add: upload_session_def placement_session_def openPreview_def handleDragEnd_def
      handleFieldPlaced_def updateDocumentFields_def getDocumentFields_def
      dragEndField_def dropField_def show_int_42 show_int_43 Let_def)

end
